theory Spec2Isabelle
  imports Complex_Main "HOL-Library.Log_Nat"
begin

section \<open>Double-precision arithmetic of the length computation\<close>

text \<open>
  The only arithmetic the notebooks do themselves is
  \<^verbatim>\<open>new_len = int(len(s) * r / (ratio * r))\<close> in \<^verbatim>\<open>random_speed_change\<close>.
  \<^verbatim>\<open>ratio\<close> is a Python float (an IEEE binary64 number), \<^verbatim>\<open>len(s) * r\<close> is an
  integer, and both the product \<^verbatim>\<open>ratio * r\<close> and the quotient are rounded to binary64
  (round to nearest, ties to even).  A finite binary64 number is a rational, so the model
  computes on \<^typ>\<open>rat\<close> and writes the rounding out.
\<close>

datatype float64 = Finite rat | Infinity bool

definition two_powi :: "int \<Rightarrow> rat" where
  "two_powi e = (if 0 \<le> e then 2 ^ nat e else 1 / 2 ^ nat (- e))"

text \<open>The binary exponent of a positive rational: \<open>2 ^ e \<le> x < 2 ^ (e + 1)\<close>.\<close>

definition ilog2 :: "rat \<Rightarrow> int" where
  "ilog2 x = (if 1 \<le> x then bitlen \<lfloor>x\<rfloor> - 1 else - bitlen (\<lceil>1 / x\<rceil> - 1))"

definition round_half_even :: "rat \<Rightarrow> int" where
  "round_half_even t =
     (let f = \<lfloor>t\<rfloor>; d = t - of_int f
      in if d < 1 / 2 then f else if 1 / 2 < d then f + 1 else if even f then f else f + 1)"

text \<open>
  Rounding of a positive rational: 53 significant bits, the exponent not below the
  subnormal range, overflow to infinity.
\<close>

definition round_pos :: "rat \<Rightarrow> float64" where
  "round_pos x =
     (let e = max (ilog2 x) (- 1022);
          q = two_powi (e - 52);
          y = of_int (round_half_even (x / q)) * q
      in if 2 ^ 1024 \<le> y then Infinity False else Finite y)"

definition round_f64 :: "rat \<Rightarrow> float64" where
  "round_f64 x =
     (if x = 0 then Finite 0
      else if 0 < x then round_pos x
      else (case round_pos (- x) of Finite y \<Rightarrow> Finite (- y) | Infinity _ \<Rightarrow> Infinity True))"

text \<open>A float literal of the source, such as \<^verbatim>\<open>0.9\<close>, denotes the nearest binary64 number.\<close>

definition float_literal :: "rat \<Rightarrow> rat" where
  "float_literal x = (case round_f64 x of Finite y \<Rightarrow> y | Infinity _ \<Rightarrow> 0)"

text \<open>A rational is a binary64 number when rounding leaves it unchanged.\<close>

definition is_f64 :: "rat \<Rightarrow> bool" where
  "is_f64 x \<longleftrightarrow> round_f64 x = Finite x"

text \<open>
  Conversion of an integer to a float, as in \<^verbatim>\<open>ratio * r\<close> and \<^verbatim>\<open>n / x\<close>: correctly rounded;
  Python raises \<^verbatim>\<open>OverflowError\<close> for an integer beyond the binary64 range.
\<close>

definition f64_of_int :: "int \<Rightarrow> rat option" where
  "f64_of_int k = (case round_f64 (of_int k) of Finite y \<Rightarrow> Some y | Infinity _ \<Rightarrow> None)"

definition f64_mul :: "rat \<Rightarrow> rat \<Rightarrow> float64" where
  "f64_mul x y = round_f64 (x * y)"

text \<open>
  Division of a finite number.  A zero divisor raises \<^verbatim>\<open>ZeroDivisionError\<close> for Python
  floats; for numpy scalars it gives an infinity or a NaN, on which the following
  \<^verbatim>\<open>int(...)\<close> raises: either way the computation ends in an exception.
\<close>

fun f64_div :: "rat \<Rightarrow> float64 \<Rightarrow> float64 option" where
  "f64_div x (Finite y) = (if y = 0 then None else Some (round_f64 (x / y)))"
| "f64_div x (Infinity _) = Some (Finite 0)"

text \<open>\<^verbatim>\<open>int(x)\<close> truncates towards zero and raises on an infinity.\<close>

fun py_int :: "float64 \<Rightarrow> int option" where
  "py_int (Finite x) = Some (if 0 \<le> x then \<lfloor>x\<rfloor> else \<lceil>x\<rceil>)"
| "py_int (Infinity _) = None"

text \<open>
  \<^verbatim>\<open>new_len = int(len(s) * r / (ratio * r))\<close>.  The product \<^verbatim>\<open>len(s) * r\<close> is an exact
  integer: \<^verbatim>\<open>r\<close> is a Python integer when the notebook calls the function directly, and
  a 32-bit numpy scalar when it is called through \<^verbatim>\<open>tf.numpy_function\<close>, where the product
  is a 64-bit scalar that cannot wrap for an array of fewer than \<open>2 ^ 32\<close> samples.
  \<open>None\<close> stands for a raised exception.
\<close>

definition new_len :: "nat \<Rightarrow> int \<Rightarrow> rat \<Rightarrow> int option" where
  "new_len n r ratio =
     (case f64_of_int (int n * r) of
        None \<Rightarrow> None
      | Some num \<Rightarrow>
          (case f64_of_int r of
             None \<Rightarrow> None
           | Some rf \<Rightarrow>
               (case f64_div num (f64_mul ratio rf) of
                  None \<Rightarrow> None
                | Some q \<Rightarrow> py_int q)))"

section \<open>Records flowing through the pipeline\<close>

text \<open>
  \<^verbatim>\<open>metadata_to_dataset_input\<close> turns each metadata row into a dictionary with the keys
  \<^verbatim>\<open>id\<close>, \<^verbatim>\<open>path\<close>, \<^verbatim>\<open>label\<close>, \<^verbatim>\<open>target\<close>, \<^verbatim>\<open>split\<close> and \<^verbatim>\<open>is_copy\<close>; \<^verbatim>\<open>read_mp3\<close> adds
  \<^verbatim>\<open>signal\<close> and \<^verbatim>\<open>sample_rate\<close>, \<^verbatim>\<open>batch_extract_features\<close> adds \<^verbatim>\<open>logmelspec\<close>.
  The type \<open>'a\<close> is that of a 32-bit sample, \<open>'f\<close> that of a feature matrix.
\<close>

record meta_row =
  utt_id :: string
  path :: string
  label :: string
  target :: int
  split :: string
  is_copy :: bool

record 'a sig_row = meta_row +
  signal :: "'a list"
  sample_rate :: int

record ('a, 'f) feat_row = "'a sig_row" +
  logmelspec :: 'f

section \<open>The libraries the notebooks call\<close>

text \<open>
  lidbox, scipy, numpy, pandas and TensorFlow are not part of the notebooks.  Their
  functions are parameters of the model, collected in one record; every theorem holds
  for all of them.  \<^verbatim>\<open>scipy.signal.resample\<close> is called with a length the notebook computes,
  which can be 0, where the library has no signal to return: its result is optional, and
  \<open>None\<close> is the exception it raises.  \<open>'d\<close> is the type of a 64-bit sample or coefficient, \<open>'g\<close> the state of
  the generator \<^verbatim>\<open>np_rng\<close>, \<open>'h\<close> the state of numpy's global generator, \<open>'k\<close> the state of
  TensorFlow's generator.  The feature functions receive a batch of one utterance and
  are taken on that utterance.
\<close>

record ('a, 'd, 'f, 'g, 'h, 'k) env =
  audio_read_mp3 :: "string \<Rightarrow> 'a list \<times> int"
  audio_resample :: "'a list \<Rightarrow> int \<Rightarrow> int \<Rightarrow> 'a list"
  audio_peak_normalize :: "'a list \<Rightarrow> rat \<Rightarrow> 'a list"
  audio_remove_silence :: "'a list \<Rightarrow> int \<Rightarrow> 'a list"
  audio_spectrograms :: "'a list \<Rightarrow> int \<Rightarrow> 'f"
  audio_linear_to_mel :: "'f \<Rightarrow> int \<Rightarrow> 'f"
  tf_add :: "'f \<Rightarrow> rat \<Rightarrow> 'f"
  tf_math_log :: "'f \<Rightarrow> 'f"
  cmvn :: "'f \<Rightarrow> bool \<Rightarrow> 'f"
  tf_cast_float32 :: "'a list \<Rightarrow> 'a list"
  scipy_resample :: "'a list \<Rightarrow> int \<Rightarrow> 'd list option"
  scipy_lfilter :: "'d list \<Rightarrow> rat \<Rightarrow> 'a list \<Rightarrow> 'd list"
  astype_float32 :: "'d list \<Rightarrow> 'a list"
  rng_uniform :: "rat \<Rightarrow> rat \<Rightarrow> 'g \<Rightarrow> rat \<times> 'g"
  rng_normal :: "rat \<Rightarrow> rat \<Rightarrow> nat \<Rightarrow> 'g \<Rightarrow> 'd list \<times> 'g"
  df_sample :: "meta_row list \<Rightarrow> 'h \<Rightarrow> meta_row list \<times> 'h"
  df_sample_rng :: "meta_row list \<Rightarrow> 'g \<Rightarrow> meta_row list \<times> 'g"
  tf_shuffle :: "nat \<Rightarrow> ('f \<times> int) list \<Rightarrow> 'k \<Rightarrow> ('f \<times> int) list \<times> 'k"
  random_signal_speed_change ::
    "rat \<Rightarrow> rat \<Rightarrow> string \<Rightarrow> 'a sig_row list \<Rightarrow> 'k \<Rightarrow> 'a sig_row list \<times> 'k"

section \<open>The stages of the augmenting notebook\<close>

text \<open>\<^verbatim>\<open>read_mp3\<close>: decode, resample to 16 kHz, peak-normalise to -3 dBFS, trim silence.\<close>

definition read_mp3 :: "('a, 'd, 'f, 'g, 'h, 'k) env \<Rightarrow> meta_row \<Rightarrow> 'a sig_row" where
  "read_mp3 env x =
     (let (s, r) = audio_read_mp3 env (path x);
          out_rate = 16000;
          s = audio_resample env s r out_rate;
          s = audio_peak_normalize env s (- 3);
          s = audio_remove_silence env s out_rate
      in \<lparr>utt_id = utt_id x, path = path x, label = label x, target = target x,
          split = split x, is_copy = is_copy x, signal = s, sample_rate = out_rate\<rparr>)"

text \<open>
  \<^verbatim>\<open>random_filter(s, N=10)\<close>: \<open>N\<close> coefficients from \<^verbatim>\<open>np_rng.normal(0, 1, N)\<close>, then
  \<^verbatim>\<open>scipy.signal.lfilter(b, 1.0, s).astype(np.float32)\<close>.  The generator state is passed
  in and returned.
\<close>

definition random_filter ::
  "('a, 'd, 'f, 'g, 'h, 'k) env \<Rightarrow> 'a list \<Rightarrow> nat \<Rightarrow> 'g \<Rightarrow> ('a list \<times> 'd list) \<times> 'g" where
  "random_filter env s N g =
     (let (b, g') = rng_normal env 0 1 N g
      in ((astype_float32 env (scipy_lfilter env b 1 s), b), g'))"

text \<open>
  \<^verbatim>\<open>random_speed_change(s, r, lo=0.9, hi=1.1)\<close>: a ratio from \<^verbatim>\<open>np_rng.uniform(lo, hi)\<close>,
  the new length, then \<^verbatim>\<open>scipy.signal.resample(s, new_len).astype(np.float32)\<close>.  An
  exception of the length computation or of the resampler ends the call.
\<close>

definition random_speed_change ::
  "('a, 'd, 'f, 'g, 'h, 'k) env \<Rightarrow> 'a list \<Rightarrow> int \<Rightarrow> rat \<Rightarrow> rat \<Rightarrow> 'g
     \<Rightarrow> (('a list \<times> rat) \<times> 'g) option" where
  "random_speed_change env s r lo hi g =
     (let (ratio, g') = rng_uniform env lo hi g
      in case new_len (length s) r ratio of
           None \<Rightarrow> None
         | Some n \<Rightarrow>
             (case scipy_resample env s n of
                None \<Rightarrow> None
              | Some y \<Rightarrow> Some ((astype_float32 env y, ratio), g')))"

definition lo_default :: rat where
  "lo_default = float_literal (9 / 10)"

definition hi_default :: rat where
  "hi_default = float_literal (11 / 10)"

definition random_speed_change_wrapper ::
  "('a, 'd, 'f, 'g, 'h, 'k) env \<Rightarrow> 'a sig_row \<Rightarrow> 'g \<Rightarrow> ('a sig_row \<times> 'g) option" where
  "random_speed_change_wrapper env x g =
     (if \<not> is_copy x then Some (x, g)
      else (case random_speed_change env (signal x) (sample_rate x) lo_default hi_default g of
              None \<Rightarrow> None
            | Some ((s, _), g') \<Rightarrow> Some (x\<lparr>signal := s\<rparr>, g')))"

definition random_filter_wrapper ::
  "('a, 'd, 'f, 'g, 'h, 'k) env \<Rightarrow> 'a sig_row \<Rightarrow> 'g \<Rightarrow> 'a sig_row \<times> 'g" where
  "random_filter_wrapper env x g =
     (let ((s, _), g') = random_filter env (signal x) 10 g;
          s = tf_cast_float32 env s;
          s = audio_peak_normalize env s (- 3)
      in (x\<lparr>signal := s\<rparr>, g'))"

text \<open>
  \<^verbatim>\<open>batch_extract_features\<close>, on the batch of one utterance that \<^verbatim>\<open>batch(1)\<close> makes:
  spectrogram, mel projection, logarithm of the sum with \<^verbatim>\<open>1e-6\<close>, then
  \<^verbatim>\<open>cmvn(S, normalize_variance=False)\<close>.
\<close>

definition batch_extract_features ::
  "('a, 'd, 'f, 'g, 'h, 'k) env \<Rightarrow> 'a sig_row \<Rightarrow> ('a, 'f) feat_row" where
  "batch_extract_features env x =
     (let signals = signal x; rates = sample_rate x;
          S = audio_spectrograms env signals rates;
          S = audio_linear_to_mel env S rates;
          S = tf_math_log env (tf_add env S (float_literal (1 / 1000000)));
          S = cmvn env S False
      in \<lparr>utt_id = utt_id x, path = path x, label = label x, target = target x,
          split = split x, is_copy = is_copy x, signal = signal x,
          sample_rate = sample_rate x, logmelspec = S\<rparr>)"

definition signal_is_not_empty :: "'a sig_row \<Rightarrow> bool" where
  "signal_is_not_empty x = (0 < length (signal x))"

definition as_model_input :: "('a, 'f) feat_row \<Rightarrow> 'f \<times> int" where
  "as_model_input x = (logmelspec x, target x)"

section \<open>Datasets\<close>

text \<open>
  A \<^verbatim>\<open>tf.data.Dataset\<close> is lazy: building it runs nothing, a traversal runs its stages.
  A dataset is therefore a function from the state of the process (the cache files and
  the random generators) to the elements of one full traversal, the log of the stage
  functions that ran, and the new state; \<open>None\<close> is a traversal ended by an exception.
  The stages of different utterances interleave as the scheduler decides; the model runs
  one stage over the whole sequence before the next.
\<close>

datatype stage =
  Read_mp3 | Speed_change | Filter_signal | Extract_features | Model_input

type_synonym event = "stage \<times> string"

text \<open>A cache file holds serialised elements: records with a signal, or with features.\<close>

datatype ('a, 'f) entry = Signal_entry "'a sig_row" | Feature_entry "('a, 'f) feat_row"

record ('a, 'f, 'g, 'h, 'k) store =
  cache :: "string \<rightharpoonup> ('a, 'f) entry list"
  np_rng :: 'g
  np_random :: 'h
  tf_random :: 'k

type_synonym ('x, 'a, 'f, 'g, 'h, 'k) dataset =
  "('a, 'f, 'g, 'h, 'k) store \<Rightarrow> ('x list \<times> event list \<times> ('a, 'f, 'g, 'h, 'k) store) option"

definition from_tensor_slices :: "'x list \<Rightarrow> ('x, 'a, 'f, 'g, 'h, 'k) dataset" where
  "from_tensor_slices rows = (\<lambda>st. Some (rows, [], st))"

text \<open>\<^verbatim>\<open>map\<close> with a function that neither draws random numbers nor raises.\<close>

definition ds_map ::
  "stage \<Rightarrow> ('x \<Rightarrow> string) \<Rightarrow> ('x \<Rightarrow> 'y) \<Rightarrow> ('x, 'a, 'f, 'g, 'h, 'k) dataset
     \<Rightarrow> ('y, 'a, 'f, 'g, 'h, 'k) dataset" where
  "ds_map tag key f ds =
     (\<lambda>st. case ds st of
              None \<Rightarrow> None
            | Some (xs, ev, st') \<Rightarrow> Some (map f xs, ev @ map (\<lambda>x. (tag, key x)) xs, st'))"

text \<open>\<^verbatim>\<open>map\<close> with a function that draws from \<^verbatim>\<open>np_rng\<close> and may raise.\<close>

fun map_rng :: "('x \<Rightarrow> 'g \<Rightarrow> ('y \<times> 'g) option) \<Rightarrow> 'x list \<Rightarrow> 'g \<Rightarrow> ('y list \<times> 'g) option" where
  "map_rng f [] g = Some ([], g)"
| "map_rng f (x # xs) g =
     (case f x g of
        None \<Rightarrow> None
      | Some (y, g') \<Rightarrow>
          (case map_rng f xs g' of
             None \<Rightarrow> None
           | Some (ys, g'') \<Rightarrow> Some (y # ys, g'')))"

definition ds_map_rng ::
  "stage \<Rightarrow> ('x \<Rightarrow> string) \<Rightarrow> ('x \<Rightarrow> 'g \<Rightarrow> ('y \<times> 'g) option)
     \<Rightarrow> ('x, 'a, 'f, 'g, 'h, 'k) dataset \<Rightarrow> ('y, 'a, 'f, 'g, 'h, 'k) dataset" where
  "ds_map_rng tag key f ds =
     (\<lambda>st. case ds st of
              None \<Rightarrow> None
            | Some (xs, ev, st') \<Rightarrow>
                (case map_rng f xs (np_rng st') of
                   None \<Rightarrow> None
                 | Some (ys, g') \<Rightarrow>
                     Some (ys, ev @ map (\<lambda>x. (tag, key x)) xs, st'\<lparr>np_rng := g'\<rparr>)))"

definition ds_filter ::
  "('x \<Rightarrow> bool) \<Rightarrow> ('x, 'a, 'f, 'g, 'h, 'k) dataset \<Rightarrow> ('x, 'a, 'f, 'g, 'h, 'k) dataset" where
  "ds_filter p ds =
     (\<lambda>st. case ds st of
              None \<Rightarrow> None
            | Some (xs, ev, st') \<Rightarrow> Some (filter p xs, ev, st'))"

text \<open>\<^verbatim>\<open>prefetch\<close> buffers elements and changes none of them.\<close>

definition ds_prefetch ::
  "nat \<Rightarrow> ('x, 'a, 'f, 'g, 'h, 'k) dataset \<Rightarrow> ('x, 'a, 'f, 'g, 'h, 'k) dataset" where
  "ds_prefetch n ds = ds"

text \<open>
  \<^verbatim>\<open>cache(filename)\<close>: the first full traversal runs the dataset above it and writes its
  elements to the file; once the file exists, a traversal reads the file and runs
  nothing above it.  A file holding elements of the wrong kind cannot be read back.
\<close>

fun read_entries :: "('e \<Rightarrow> 'x option) \<Rightarrow> 'e list \<Rightarrow> 'x list option" where
  "read_entries de [] = Some []"
| "read_entries de (e # es) =
     (case de e of
        None \<Rightarrow> None
      | Some x \<Rightarrow> (case read_entries de es of None \<Rightarrow> None | Some xs \<Rightarrow> Some (x # xs)))"

definition ds_cache ::
  "('x \<Rightarrow> ('a, 'f) entry) \<Rightarrow> (('a, 'f) entry \<Rightarrow> 'x option) \<Rightarrow> string
     \<Rightarrow> ('x, 'a, 'f, 'g, 'h, 'k) dataset \<Rightarrow> ('x, 'a, 'f, 'g, 'h, 'k) dataset" where
  "ds_cache ser de filename ds =
     (\<lambda>st. case cache st filename of
              Some es \<Rightarrow>
                (case read_entries de es of None \<Rightarrow> None | Some xs \<Rightarrow> Some (xs, [], st))
            | None \<Rightarrow>
                (case ds st of
                   None \<Rightarrow> None
                 | Some (xs, ev, st') \<Rightarrow>
                     Some (xs, ev, st'\<lparr>cache := (cache st')(filename \<mapsto> map ser xs)\<rparr>)))"

fun signal_of_entry :: "('a, 'f) entry \<Rightarrow> 'a sig_row option" where
  "signal_of_entry (Signal_entry x) = Some x"
| "signal_of_entry (Feature_entry y) = None"

fun feature_of_entry :: "('a, 'f) entry \<Rightarrow> ('a, 'f) feat_row option" where
  "feature_of_entry (Feature_entry y) = Some y"
| "feature_of_entry (Signal_entry x) = None"

text \<open>
  \<^verbatim>\<open>batch(1)\<close> wraps every element in a batch of its own and \<^verbatim>\<open>unbatch\<close> unwraps it;
  with the stage between them taken on the one utterance of its batch, both leave the
  sequence as it is.
\<close>

definition ds_batch ::
  "nat \<Rightarrow> ('x, 'a, 'f, 'g, 'h, 'k) dataset \<Rightarrow> ('x, 'a, 'f, 'g, 'h, 'k) dataset" where
  "ds_batch n ds = ds"

definition ds_unbatch ::
  "('x, 'a, 'f, 'g, 'h, 'k) dataset \<Rightarrow> ('x, 'a, 'f, 'g, 'h, 'k) dataset" where
  "ds_unbatch ds = ds"

text \<open>\<^verbatim>\<open>shuffle(buffer_size)\<close> draws from TensorFlow's generator on every traversal.\<close>

definition ds_shuffle ::
  "('a, 'd, 'f, 'g, 'h, 'k) env \<Rightarrow> nat \<Rightarrow> ('f \<times> int, 'a, 'f, 'g, 'h, 'k) dataset
     \<Rightarrow> ('f \<times> int, 'a, 'f, 'g, 'h, 'k) dataset" where
  "ds_shuffle env n ds =
     (\<lambda>st. case ds st of
              None \<Rightarrow> None
            | Some (xs, ev, st') \<Rightarrow>
                (let (ys, k') = tf_shuffle env n xs (tf_random st')
                 in Some (ys, ev, st'\<lparr>tf_random := k'\<rparr>)))"

section \<open>The pipeline of the augmenting notebook\<close>

text \<open>
  \<^verbatim>\<open>pipeline_from_metadata(data, split)\<close>.  Building the pipeline shuffles the rows of the
  train split once, with \<^verbatim>\<open>data.sample(frac=1)\<close> on numpy's global generator, and returns
  the dataset; the cache file is named after the split.
\<close>

definition pipeline_from_metadata ::
  "('a, 'd, 'f, 'g, 'h, 'k) env \<Rightarrow> meta_row list \<Rightarrow> string \<Rightarrow> ('a, 'f, 'g, 'h, 'k) store
     \<Rightarrow> (('a, 'f) feat_row, 'a, 'f, 'g, 'h, 'k) dataset \<times> ('a, 'f, 'g, 'h, 'k) store" where
  "pipeline_from_metadata env data0 split_name st0 =
     (let (data, h) = (if split_name = ''train'' then df_sample env data0 (np_random st0)
                       else (data0, np_random st0));
          ds = ds_prefetch 1000
                 (ds_cache Signal_entry signal_of_entry split_name
                   (ds_prefetch 1000
                     (ds_filter signal_is_not_empty
                       (ds_map Read_mp3 utt_id (read_mp3 env)
                         (from_tensor_slices data)))));
          ds = (if split_name = ''train''
                then ds_map_rng Filter_signal utt_id
                       (\<lambda>x g. Some (random_filter_wrapper env x g))
                       (ds_map_rng Speed_change utt_id (random_speed_change_wrapper env) ds)
                else ds)
      in (ds_unbatch
            (ds_map Extract_features utt_id (batch_extract_features env) (ds_batch 1 ds)),
          st0\<lparr>np_random := h\<rparr>))"

text \<open>The input of the training loop: \<^verbatim>\<open>split2ds["train"].map(as_model_input).shuffle(1000)\<close>.\<close>

definition train_ds ::
  "('a, 'd, 'f, 'g, 'h, 'k) env \<Rightarrow> (('a, 'f) feat_row, 'a, 'f, 'g, 'h, 'k) dataset
     \<Rightarrow> ('f \<times> int, 'a, 'f, 'g, 'h, 'k) dataset" where
  "train_ds env ds = ds_shuffle env 1000 (ds_map Model_input utt_id as_model_input ds)"

section \<open>The pipeline of the embeddings notebook\<close>

text \<open>
  \<^verbatim>\<open>read_mp3\<close> and \<^verbatim>\<open>batch_extract_features\<close> are those of the augmenting notebook, and
  \<^verbatim>\<open>random_filter(x)\<close> is its \<^verbatim>\<open>random_filter_wrapper\<close>.  The speed change is lidbox's
  \<^verbatim>\<open>random_signal_speed_change(ds, min=0.9, max=1.1, flag="is_copy")\<close>, applied to the
  dataset as a whole.
\<close>

definition emb_random_speed_change ::
  "('a, 'd, 'f, 'g, 'h, 'k) env \<Rightarrow> ('a sig_row, 'a, 'f, 'g, 'h, 'k) dataset
     \<Rightarrow> ('a sig_row, 'a, 'f, 'g, 'h, 'k) dataset" where
  "emb_random_speed_change env ds =
     (\<lambda>st. case ds st of
              None \<Rightarrow> None
            | Some (xs, ev, st') \<Rightarrow>
                (let (ys, k') = random_signal_speed_change env lo_default hi_default
                                  ''is_copy'' xs (tf_random st')
                 in Some (ys, ev @ map (\<lambda>x. (Speed_change, utt_id x)) xs,
                          st'\<lparr>tf_random := k'\<rparr>)))"

definition pipeline_from_meta ::
  "('a, 'd, 'f, 'g, 'h, 'k) env \<Rightarrow> meta_row list \<Rightarrow> string \<Rightarrow> ('a, 'f, 'g, 'h, 'k) store
     \<Rightarrow> (('a, 'f) feat_row, 'a, 'f, 'g, 'h, 'k) dataset \<times> ('a, 'f, 'g, 'h, 'k) store" where
  "pipeline_from_meta env data0 split_name st0 =
     (let (data, g) = (if split_name = ''train'' then df_sample_rng env data0 (np_rng st0)
                       else (data0, np_rng st0));
          ds = ds_map Read_mp3 utt_id (read_mp3 env) (from_tensor_slices data)
      in (if split_name = ''test''
          then ds_prefetch 1000
                 (ds_cache Feature_entry feature_of_entry split_name
                   (ds_unbatch
                     (ds_map Extract_features utt_id (batch_extract_features env)
                       (ds_batch 1 ds))))
          else ds_unbatch
                 (ds_map Extract_features utt_id (batch_extract_features env)
                   (ds_batch 1
                     (ds_map_rng Filter_signal utt_id
                       (\<lambda>x g. Some (random_filter_wrapper env x g))
                       (emb_random_speed_change env
                         (ds_prefetch 1000
                           (ds_cache Signal_entry signal_of_entry split_name ds)))))),
          st0\<lparr>np_rng := g\<rparr>))"

section \<open>What a traversal works on\<close>

text \<open>
  The rows a pipeline was built on (shuffled once for the train split), the records that
  pass the empty-signal filter, the two augmentation stages run one after the other, and
  the log entries of one stage.
\<close>

definition shuffled_once ::
  "('a, 'd, 'f, 'g, 'h, 'k) env \<Rightarrow> meta_row list \<Rightarrow> string \<Rightarrow> ('a, 'f, 'g, 'h, 'k) store
     \<Rightarrow> meta_row list" where
  "shuffled_once env data split_name st0 =
     (if split_name = ''train'' then fst (df_sample env data (np_random st0)) else data)"

definition emb_rows ::
  "('a, 'd, 'f, 'g, 'h, 'k) env \<Rightarrow> meta_row list \<Rightarrow> string \<Rightarrow> ('a, 'f, 'g, 'h, 'k) store
     \<Rightarrow> meta_row list" where
  "emb_rows env data split_name st0 =
     (if split_name = ''train'' then fst (df_sample_rng env data (np_rng st0)) else data)"

definition conditioned ::
  "('a, 'd, 'f, 'g, 'h, 'k) env \<Rightarrow> meta_row list \<Rightarrow> 'a sig_row list" where
  "conditioned env data = filter signal_is_not_empty (map (read_mp3 env) data)"

definition augment ::
  "('a, 'd, 'f, 'g, 'h, 'k) env \<Rightarrow> 'a sig_row list \<Rightarrow> 'g \<Rightarrow> ('a sig_row list \<times> 'g) option" where
  "augment env xs g =
     (case map_rng (random_speed_change_wrapper env) xs g of
        None \<Rightarrow> None
      | Some (ys, g1) \<Rightarrow> map_rng (\<lambda>x g. Some (random_filter_wrapper env x g)) ys g1)"

definition stage_events :: "stage \<Rightarrow> ('z meta_row_scheme) list \<Rightarrow> event list" where
  "stage_events tag xs = map (\<lambda>x. (tag, utt_id x)) xs"

text \<open>Two records that agree on every field but the signal.\<close>

definition same_but_signal :: "'a sig_row \<Rightarrow> 'a sig_row \<Rightarrow> bool" where
  "same_but_signal x y \<longleftrightarrow>
     utt_id y = utt_id x \<and> path y = path x \<and> label y = label x \<and> target y = target x
     \<and> split y = split x \<and> is_copy y = is_copy x \<and> sample_rate y = sample_rate x"

section \<open>A concrete instance of the libraries\<close>

text \<open>
  To evaluate the model on concrete inputs, the libraries are instantiated with simple
  functions: the decoder returns one sample per character of the path (so the empty path
  is a clip that conditions to the empty signal), the conditioning and feature functions
  return their argument, the resampler returns a signal of the requested length and
  raises when that length is not positive, the
  uniform generator steps through its interval in quarters, and every shuffle is a
  rearrangement that advances the state of its generator; the shuffle of the metadata
  rows reverses them or leaves them, as the state of numpy's global generator is even or
  odd.
\<close>

definition toy_env :: "(int, int, int list, nat, nat, nat) env" where
  "toy_env =
     \<lparr>audio_read_mp3 = (\<lambda>p. (replicate (length p) 1, 44100)),
      audio_resample = (\<lambda>s r out. s),
      audio_peak_normalize = (\<lambda>s d. s),
      audio_remove_silence = (\<lambda>s r. s),
      audio_spectrograms = (\<lambda>s r. s),
      audio_linear_to_mel = (\<lambda>S r. S),
      tf_add = (\<lambda>S e. S),
      tf_math_log = (\<lambda>S. S),
      cmvn = (\<lambda>S v. S),
      tf_cast_float32 = (\<lambda>s. s),
      scipy_resample = (\<lambda>s n. if n \<le> 0 then None else Some (replicate (nat n) 1)),
      scipy_lfilter = (\<lambda>b a s. s),
      astype_float32 = (\<lambda>s. s),
      rng_uniform = (\<lambda>lo hi g. (float_literal (lo + (hi - lo) * of_nat (g mod 4) / 4), Suc g)),
      rng_normal = (\<lambda>m sd n g. (replicate n (int g), Suc g)),
      df_sample = (\<lambda>rows h. (if even h then rev rows else rows, Suc h)),
      df_sample_rng = (\<lambda>rows g. (rev rows, Suc g)),
      tf_shuffle = (\<lambda>n xs k. (rotate1 xs, Suc k)),
      random_signal_speed_change = (\<lambda>lo hi flag xs k. (xs, Suc k))\<rparr>"

definition toy_row :: "string \<Rightarrow> string \<Rightarrow> string \<Rightarrow> bool \<Rightarrow> meta_row" where
  "toy_row i p sp c =
     \<lparr>utt_id = i, path = p, label = ''et'', target = 0, split = sp, is_copy = c\<rparr>"

definition toy_signal ::
  "string \<Rightarrow> string \<Rightarrow> string \<Rightarrow> bool \<Rightarrow> int list \<Rightarrow> int sig_row" where
  "toy_signal i p sp c s =
     \<lparr>utt_id = i, path = p, label = ''et'', target = 0, split = sp, is_copy = c,
      signal = s, sample_rate = 16000\<rparr>"

definition toy_feat ::
  "string \<Rightarrow> string \<Rightarrow> string \<Rightarrow> bool \<Rightarrow> int list \<Rightarrow> (int, int list) feat_row" where
  "toy_feat i p sp c s =
     \<lparr>utt_id = i, path = p, label = ''et'', target = 0, split = sp, is_copy = c,
      signal = s, sample_rate = 16000, logmelspec = s\<rparr>"

definition toy_store :: "(int, int list, nat, nat, nat) store" where
  "toy_store = \<lparr>cache = Map.empty, np_rng = 0, np_random = 0, tf_random = 0\<rparr>"

section \<open>Properties of the rounding\<close>

lemma two_powi_powi: "two_powi e = 2 powi e"
  by (simp add: two_powi_def power_int_def power_inverse[symmetric] inverse_eq_divide power_one_over)

lemma two_powi_pos [simp]: "0 < two_powi e"
  by (simp add: two_powi_def)


lemma two_powi_diff: "two_powi (a - b) = two_powi a / two_powi b"
  by (simp add: two_powi_powi power_int_diff)

lemma two_powi_mono: "a \<le> b \<Longrightarrow> two_powi a \<le> two_powi b"
  by (simp add: two_powi_powi power_int_increasing)

lemma two_powi_strict_mono: "a < b \<Longrightarrow> two_powi a < two_powi b"
  by (simp add: two_powi_powi power_int_strict_increasing)

lemma two_powi_less_iff: "two_powi a < two_powi b \<longleftrightarrow> a < b"
  by (metis two_powi_mono two_powi_strict_mono not_less)

lemma two_powi_nat: "0 \<le> e \<Longrightarrow> two_powi e = 2 ^ nat e"
  by (simp add: two_powi_def)


lemma ilog2_lower: assumes "0 < x" shows "two_powi (ilog2 x) \<le> x"
proof (cases "1 \<le> x")
  case True
  define k where "k = \<lfloor>x\<rfloor>"
  have kpos: "0 < k" using True by (simp add: k_def)
  from bitlen_bounds[OF kpos] have b: "2 ^ nat (bitlen k - 1) \<le> k" by simp
  have "0 \<le> bitlen k - 1" using kpos by (simp add: bitlen_alt_def)
  then have "two_powi (bitlen k - 1) = 2 ^ nat (bitlen k - 1)" by (rule two_powi_nat)
  also have "\<dots> \<le> rat_of_int k" using b by simp
  also have "\<dots> \<le> x" by (simp add: k_def)
  finally show ?thesis using True by (simp add: ilog2_def k_def)
next
  case False
  define c where "c = \<lceil>1 / x\<rceil>"
  have x1: "x < 1" using False by simp
  then have "1 < 1 / x" using assms by simp
  then have c2: "2 \<le> c" unfolding c_def by linarith
  then have cpos: "0 < c - 1" by simp
  from bitlen_bounds[OF cpos] have "c - 1 < 2 ^ nat (bitlen (c - 1))" by simp
  then have "c \<le> 2 ^ nat (bitlen (c - 1))" by simp
  then have "rat_of_int c \<le> 2 ^ nat (bitlen (c - 1))" by simp
  moreover have "1 / x \<le> rat_of_int c" unfolding c_def by simp
  ultimately have "1 / x \<le> 2 ^ nat (bitlen (c - 1))" by (rule order_trans[rotated])
  then have "1 / 2 ^ nat (bitlen (c - 1)) \<le> x" using assms
    by (simp add: field_simps)
  moreover have "two_powi (- bitlen (c - 1)) = 1 / 2 ^ nat (bitlen (c - 1))"
    using bitlen_nonneg[of "c - 1"] by (simp add: two_powi_powi power_int_minus_divide power_int_nonneg_exp)
  ultimately show ?thesis using False by (simp add: ilog2_def c_def)
qed

lemma ilog2_upper: assumes "0 < x" shows "x < two_powi (ilog2 x + 1)"
proof (cases "1 \<le> x")
  case True
  define k where "k = \<lfloor>x\<rfloor>"
  have kpos: "0 < k" using True by (simp add: k_def)
  from bitlen_bounds[OF kpos] have "k < 2 ^ nat (bitlen k)" by simp
  then have "k + 1 \<le> 2 ^ nat (bitlen k)" by simp
  then have "rat_of_int (k + 1) \<le> 2 ^ nat (bitlen k)" by (metis of_int_le_numeral_power_cancel_iff)
  moreover have "x < rat_of_int (k + 1)" unfolding k_def by linarith
  ultimately have "x < 2 ^ nat (bitlen k)" by (rule less_le_trans[rotated])
  moreover have "two_powi (bitlen k) = 2 ^ nat (bitlen k)"
    using bitlen_nonneg[of k] by (simp add: two_powi_nat)
  ultimately show ?thesis using True by (simp add: ilog2_def k_def)
next
  case False
  define c where "c = \<lceil>1 / x\<rceil>"
  define b where "b = bitlen (c - 1)"
  have x1: "x < 1" using False by simp
  then have "1 < 1 / x" using assms by simp
  then have c2: "2 \<le> c" unfolding c_def by linarith
  then have cpos: "0 < c - 1" by simp
  have b1: "1 \<le> b" using cpos by (simp add: b_def bitlen_alt_def)
  from bitlen_bounds[OF cpos] have "2 ^ nat (b - 1) \<le> c - 1" by (simp add: b_def)
  then have "2 ^ nat (b - 1) \<le> rat_of_int (c - 1)" by (metis numeral_power_le_of_int_cancel_iff)
  moreover have "rat_of_int (c - 1) < 1 / x" unfolding c_def by linarith
  ultimately have "2 ^ nat (b - 1) < 1 / x" by (rule le_less_trans)
  then have "x < 1 / 2 ^ nat (b - 1)" using assms by (simp add: field_simps)
  moreover have "two_powi (- b + 1) = 1 / 2 ^ nat (b - 1)"
  proof -
    have "- b + 1 = - (b - 1)" by simp
    then show ?thesis using b1
      by (simp only: two_powi_powi power_int_minus_divide) (simp add: power_int_nonneg_exp)
  qed
  ultimately show ?thesis using False by (simp add: ilog2_def c_def b_def)
qed

lemma ilog2_unique:
  assumes "0 < x" "two_powi e \<le> x" "x < two_powi (e + 1)"
  shows "ilog2 x = e"
proof -
  have "two_powi e < two_powi (ilog2 x + 1)" using assms(2) ilog2_upper[OF assms(1)] by simp
  then have "e < ilog2 x + 1" by (simp add: two_powi_less_iff)
  moreover have "two_powi (ilog2 x) < two_powi (e + 1)" using assms(3) ilog2_lower[OF assms(1)] by simp
  then have "ilog2 x < e + 1" by (simp add: two_powi_less_iff)
  ultimately show ?thesis by simp
qed


lemma rhe_error: "\<bar>rat_of_int (round_half_even t) - t\<bar> \<le> 1 / 2"
proof -
  have "rat_of_int \<lfloor>t\<rfloor> \<le> t" "t < rat_of_int \<lfloor>t\<rfloor> + 1" by linarith+
  then show ?thesis
    by (auto simp: round_half_even_def Let_def abs_le_iff)
qed

lemma rhe_eqI: assumes "\<bar>t - rat_of_int m\<bar> < 1 / 2" shows "round_half_even t = m"
proof -
  have "\<bar>rat_of_int (round_half_even t) - rat_of_int m\<bar> < 1"
    using rhe_error[of t] assms by linarith
  then have "\<bar>rat_of_int (round_half_even t - m)\<bar> < 1" by simp
  then have "\<bar>round_half_even t - m\<bar> < 1" by (metis of_int_abs of_int_less_1_iff)
  then show ?thesis by simp
qed

lemma rhe_of_int [simp]: "round_half_even (rat_of_int k) = k"
  by (rule rhe_eqI) simp



lemma two_powi_52: "two_powi (e - 52) = two_powi e / 2 ^ 52"
  by (simp add: two_powi_diff) (simp add: two_powi_def)

lemma round_pos_normal:
  assumes "two_powi (- 1022) \<le> x" "x \<le> 2 ^ 1023"
  shows "\<exists>y. round_pos x = Finite y \<and> \<bar>y - x\<bar> \<le> x / 2 ^ 53"
proof -
  define e where "e = ilog2 x"
  define q where "q = two_powi (e - 52)"
  define m where "m = round_half_even (x / q)"
  have xpos: "0 < x" using assms(1) two_powi_pos[of "- 1022"] by linarith
  have lo: "two_powi e \<le> x" and hi: "x < two_powi (e + 1)"
    unfolding e_def using ilog2_lower[OF xpos] ilog2_upper[OF xpos] by simp_all
  have "two_powi (- 1022) < two_powi (e + 1)" using assms(1) hi by simp
  then have e_ge: "- 1022 \<le> e" by (simp add: two_powi_less_iff)
  have qpos: "0 < q" by (simp add: q_def)
  have "\<bar>rat_of_int m - x / q\<bar> \<le> 1 / 2" unfolding m_def by (rule rhe_error)
  then have "q * \<bar>rat_of_int m - x / q\<bar> \<le> q * (1 / 2)"
    using qpos by (simp only: mult_le_cancel_left_pos)
  moreover have "q * \<bar>rat_of_int m - x / q\<bar> = \<bar>rat_of_int m * q - x\<bar>"
  proof -
    have "q * \<bar>rat_of_int m - x / q\<bar> = \<bar>q * (rat_of_int m - x / q)\<bar>"
      using qpos by (simp add: abs_mult)
    also have "q * (rat_of_int m - x / q) = rat_of_int m * q - x"
      using qpos by (simp add: field_simps)
    finally show ?thesis .
  qed
  ultimately have err: "\<bar>rat_of_int m * q - x\<bar> \<le> q / 2" by simp
  have "q / 2 = two_powi e / 2 ^ 53" by (simp add: q_def two_powi_52)
  also have "\<dots> \<le> x / 2 ^ 53" using lo by (simp add: divide_right_mono)
  finally have qx: "q / 2 \<le> x / 2 ^ 53" .
  have bound: "\<bar>rat_of_int m * q - x\<bar> \<le> x / 2 ^ 53" using err qx by linarith
  have "rat_of_int m * q \<le> x + x / 2 ^ 53" using bound by linarith
  also have "\<dots> \<le> 2 ^ 1023 + 2 ^ 1023 / 2 ^ 53" using assms(2) by (simp add: add_mono divide_right_mono)
  also have "\<dots> < (2::rat) ^ 1024" by simp
  finally have fin: "\<not> 2 ^ 1024 \<le> rat_of_int m * q" by simp
  have "round_pos x = Finite (rat_of_int m * q)"
    using fin e_ge by (simp add: round_pos_def Let_def m_def q_def e_def max_def)
  then show ?thesis using bound by blast
qed

lemma round_pos_eqI:
  assumes "0 < x" "two_powi e \<le> x" "x < two_powi (e + 1)" "- 1022 \<le> e"
    and "\<bar>x / two_powi (e - 52) - rat_of_int m\<bar> < 1 / 2"
    and "rat_of_int m * two_powi (e - 52) < 2 ^ 1024"
  shows "round_pos x = Finite (rat_of_int m * two_powi (e - 52))"
proof -
  have e: "ilog2 x = e" using assms(1-3) by (rule ilog2_unique)
  have m: "round_half_even (x / two_powi (e - 52)) = m" using assms(5) by (rule rhe_eqI)
  show ?thesis using assms(4,6) by (simp add: round_pos_def Let_def e m max_def)
qed

lemma round_pos_int:
  assumes "0 < k" "k < 2 ^ 53"
  shows "round_pos (rat_of_int k) = Finite (rat_of_int k)"
proof -
  define x where "x = rat_of_int k"
  define e where "e = ilog2 x"
  have xpos: "0 < x" using assms(1) by (simp add: x_def)
  have lo: "two_powi e \<le> x" and hi: "x < two_powi (e + 1)"
    unfolding e_def using ilog2_lower[OF xpos] ilog2_upper[OF xpos] by simp_all
  have "1 \<le> x" using assms(1) by (simp add: x_def)
  then have "two_powi 0 < two_powi (e + 1)" using hi by (simp add: two_powi_def)
  then have e0: "0 \<le> e" by (simp add: two_powi_less_iff)
  have "x < 2 ^ 53" using assms(2) by (simp add: x_def)
  then have "two_powi e < two_powi 53" using lo by (simp add: two_powi_def)
  then have e52: "e \<le> 52" by (simp add: two_powi_less_iff)
  define j where "j = nat (52 - e)"
  have q: "two_powi (e - 52) = 1 / 2 ^ j"
  proof (cases "e = 52")
    case True
    then show ?thesis by (simp add: j_def two_powi_def)
  next
    case False
    then have "e - 52 < 0" using e52 by simp
    then show ?thesis by (simp add: two_powi_def j_def)
  qed
  have xq: "x / two_powi (e - 52) = rat_of_int (k * 2 ^ j)" by (simp add: q x_def)
  have "round_pos x = Finite (rat_of_int (k * 2 ^ j) * two_powi (e - 52))"
  proof (rule round_pos_eqI[OF xpos lo hi])
    show "- 1022 \<le> e" using e0 by simp
    show "\<bar>x / two_powi (e - 52) - rat_of_int (k * 2 ^ j)\<bar> < 1 / 2" unfolding xq by simp
    have "rat_of_int (k * 2 ^ j) * two_powi (e - 52) = x" by (simp add: q x_def)
    also have "\<dots> < 2 ^ 53" by fact
    also have "\<dots> < (2::rat) ^ 1024" by simp
    finally show "rat_of_int (k * 2 ^ j) * two_powi (e - 52) < 2 ^ 1024" .
  qed
  moreover have "rat_of_int (k * 2 ^ j) * two_powi (e - 52) = x" by (simp add: q x_def)
  ultimately show ?thesis by (simp add: x_def)
qed

lemma f64_of_int_exact:
  assumes "0 \<le> k" "k < 2 ^ 53"
  shows "f64_of_int k = Some (rat_of_int k)"
proof (cases "k = 0")
  case True
  then show ?thesis by (simp add: f64_of_int_def round_f64_def)
next
  case False
  then have "0 < k" using assms(1) by simp
  then show ?thesis using round_pos_int[OF _ assms(2)]
    by (simp add: f64_of_int_def round_f64_def)
qed


lemma round_f64_pos: "0 < x \<Longrightarrow> round_f64 x = round_pos x"
  by (simp add: round_f64_def)

lemma two_powi_m1022_le: "two_powi (- 1022) \<le> 1 / 1024"
proof -
  have "two_powi (- 1022) \<le> two_powi (- 10)" by (rule two_powi_mono) simp
  then show ?thesis by (simp add: two_powi_def)
qed

lemma product_in_range:
  assumes "1 / 2 \<le> ratio" "ratio \<le> 2" "0 < r" "r < 2 ^ 22"
  shows "1 / 2 \<le> ratio * rat_of_int r" "ratio * rat_of_int r \<le> 2 ^ 23"
proof -
  have r1: "1 \<le> rat_of_int r" using assms(3) by (simp add: int_one_le_iff_zero_less)
  have r22: "rat_of_int r \<le> 2 ^ 22" using assms(4)
    by (metis less_imp_le of_int_le_numeral_power_cancel_iff)
  have "1 / 2 * 1 \<le> ratio * rat_of_int r" using assms(1) r1 by (intro mult_mono) simp_all
  then show "1 / 2 \<le> ratio * rat_of_int r" by simp
  have "ratio * rat_of_int r \<le> 2 * 2 ^ 22" using assms(1,2,3) r22 by (intro mult_mono) simp_all
  then show "ratio * rat_of_int r \<le> 2 ^ 23" by simp
qed

lemma new_len_steps:
  fixes n :: nat
  assumes "1 / 2 \<le> ratio" "ratio \<le> 2" "0 < r" "r < 2 ^ 22" "n < 2 ^ 31" "0 < n"
  shows "\<exists>R qh. round_pos (ratio * rat_of_int r) = Finite R \<and> 0 < R
           \<and> \<bar>R - ratio * rat_of_int r\<bar> \<le> ratio * rat_of_int r / 2 ^ 53
           \<and> \<bar>qh - rat_of_int (int n * r) / R\<bar> \<le> rat_of_int (int n * r) / R / 2 ^ 53
           \<and> 0 \<le> qh \<and> new_len n r ratio = Some \<lfloor>qh\<rfloor>"
proof -
  define N where "N = int n * r"
  define X where "X = ratio * rat_of_int r"
  define q where "q = rat_of_nat n / ratio"
  have rpos: "0 < ratio" using assms(1) by linarith
  have N0: "0 \<le> N" using assms(3) by (simp add: N_def)
  have "int n * r \<le> (2 ^ 31 - 1) * 2 ^ 22"
    using assms(3,4,5) by (intro mult_mono) simp_all
  then have N53: "N < 2 ^ 53" by (simp add: N_def)
  have fN: "f64_of_int N = Some (rat_of_int N)" using N0 N53 by (rule f64_of_int_exact)
  have fr: "f64_of_int r = Some (rat_of_int r)" using assms(3,4) by (intro f64_of_int_exact) simp_all
  have X_lo: "1 / 2 \<le> X" and X_hi: "X \<le> 2 ^ 23"
    unfolding X_def using product_in_range[OF assms(1-4)] by simp_all
  have Xpos: "0 < X" using X_lo by linarith
  have "two_powi (- 1022) \<le> X" using two_powi_m1022_le X_lo by linarith
  moreover have "X \<le> 2 ^ 1023" using X_hi by (rule order_trans) simp
  ultimately obtain R where R: "round_pos X = Finite R" and Rerr: "\<bar>R - X\<bar> \<le> X / 2 ^ 53"
    using round_pos_normal by blast
  have R_lo: "X * (1 - 1 / 2 ^ 53) \<le> R" and R_hi: "R \<le> X * (1 + 1 / 2 ^ 53)"
    using abs_le_D1[OF Rerr] abs_le_D2[OF Rerr] by (simp_all add: field_simps)
  have Rpos: "0 < R" using R_lo Xpos by (simp add: algebra_simps)
  have mul: "f64_mul ratio (rat_of_int r) = Finite R"
    using R Xpos by (simp add: f64_mul_def round_f64_pos X_def)
  have step: "new_len n r ratio = py_int (round_f64 (rat_of_int N / R))"
    using fN fr mul Rpos by (simp add: new_len_def N_def)
  have qX: "q * X = rat_of_int N" using rpos assms(3) by (simp add: q_def X_def N_def)
  define v where "v = rat_of_int N / R"
  have N1: "1 \<le> rat_of_int N"
  proof -
    have "1 * 1 \<le> int n * r" using assms(6,3) by (intro mult_mono) simp_all
    then have "1 \<le> N" by (simp add: N_def)
    then show ?thesis by (simp only: of_int_1_le_iff)
  qed
  have vpos: "0 < v" using N1 Rpos by (simp add: v_def)
  have vR: "v * R = q * X" using Rpos by (simp add: v_def qX)
  have v1: "v * (1 - 1 / 2 ^ 53) \<le> q"
  proof -
    have "(v * (1 - 1 / 2 ^ 53)) * X = v * (X * (1 - 1 / 2 ^ 53))" by (simp only: mult_ac)
    also have "\<dots> \<le> v * R" using R_lo vpos by (intro mult_left_mono) simp_all
    also have "\<dots> = q * X" by (rule vR)
    finally show ?thesis using Xpos by (simp only: mult_le_cancel_right_pos)
  qed
  have v2: "q \<le> v * (1 + 1 / 2 ^ 53)"
  proof -
    have "q * X = v * R" by (rule vR[symmetric])
    also have "\<dots> \<le> v * (X * (1 + 1 / 2 ^ 53))" using R_hi vpos by (intro mult_left_mono) simp_all
    also have "\<dots> = (v * (1 + 1 / 2 ^ 53)) * X" by (simp only: mult_ac)
    finally show ?thesis using Xpos by (simp only: mult_le_cancel_right_pos)
  qed
  have q_hi: "q \<le> 2 ^ 32"
  proof -
    have "rat_of_nat n \<le> 2 ^ 31" using assms(5) by (metis less_imp_le of_nat_le_numeral_power_cancel_iff)
    then have "rat_of_nat n / ratio \<le> 2 ^ 31 / (1 / 2)" using assms(1) by (intro frac_le) simp_all
    then show ?thesis by (simp add: q_def)
  qed
  have q_lo: "1 / 2 \<le> q"
  proof -
    have "1 \<le> rat_of_nat n" using assms(6) by simp
    then have "1 / 2 \<le> rat_of_nat n / ratio" using assms(2) rpos by (intro frac_le) simp_all
    then show ?thesis by (simp add: q_def)
  qed
  have "v \<le> 2 ^ 33" using v1 q_hi by simp
  then have v_hi: "v \<le> 2 ^ 1023" by (rule order_trans) simp
  have "1 / 4 \<le> v" using v2 q_lo by simp
  then have v_lo: "two_powi (- 1022) \<le> v" using two_powi_m1022_le by linarith
  obtain qh where qh: "round_pos v = Finite qh" and qerr: "\<bar>qh - v\<bar> \<le> v / 2 ^ 53"
    using round_pos_normal[OF v_lo v_hi] by blast
  have qh0: "0 \<le> qh" using abs_le_D2[OF qerr] vpos by (simp add: field_simps)
  have "new_len n r ratio = Some \<lfloor>qh\<rfloor>"
    using step qh vpos qh0 by (simp add: v_def[symmetric] round_f64_pos)
  then show ?thesis using R Rpos Rerr qerr qh0 unfolding v_def X_def N_def by blast
qed

lemma new_len_zero:
  assumes "1 / 2 \<le> ratio" "ratio \<le> 2" "0 < r" "r < 2 ^ 22"
  shows "new_len 0 r ratio = Some 0"
proof -
  define X where "X = ratio * rat_of_int r"
  have fr: "f64_of_int r = Some (rat_of_int r)" using assms(3,4) by (intro f64_of_int_exact) simp_all
  have X_lo: "1 / 2 \<le> X" and X_hi: "X \<le> 2 ^ 23"
    unfolding X_def using product_in_range[OF assms(1-4)] by simp_all
  have Xpos: "0 < X" using X_lo by linarith
  have "two_powi (- 1022) \<le> X" using two_powi_m1022_le X_lo by linarith
  moreover have "X \<le> 2 ^ 1023" using X_hi by (rule order_trans) simp
  ultimately obtain R where R: "round_pos X = Finite R" and Rerr: "\<bar>R - X\<bar> \<le> X / 2 ^ 53"
    using round_pos_normal by blast
  have "X * (1 - 1 / 2 ^ 53) \<le> R"
    using abs_le_D2[OF Rerr] by (simp add: field_simps)
  then have Rpos: "0 < R" using Xpos by (simp add: algebra_simps)
  have mul: "f64_mul ratio (rat_of_int r) = Finite R"
    using R Xpos by (simp add: f64_mul_def round_f64_pos X_def)
  show ?thesis using fr mul Rpos by (simp add: new_len_def f64_of_int_def round_f64_def)
qed

lemma new_len_quotient:
  fixes n :: nat
  assumes "1 / 2 \<le> ratio" "ratio \<le> 2" "0 < r" "r < 2 ^ 22" "n < 2 ^ 31"
  shows "\<exists>qh. new_len n r ratio = Some \<lfloor>qh\<rfloor> \<and> 0 \<le> qh
           \<and> \<bar>qh - rat_of_nat n / ratio\<bar> \<le> 3 * (rat_of_nat n / ratio) / 2 ^ 53"
proof (cases "n = 0")
  case True
  then show ?thesis using new_len_zero[OF assms(1-4)] by (intro exI[of _ 0]) simp
next
  case False
  then have npos: "0 < n" by simp
  define X where "X = ratio * rat_of_int r"
  define q where "q = rat_of_nat n / ratio"
  from new_len_steps[OF assms npos] obtain R qh where
    Rpos: "0 < R" and Rerr: "\<bar>R - X\<bar> \<le> X / 2 ^ 53" and
    qerr: "\<bar>qh - rat_of_int (int n * r) / R\<bar> \<le> rat_of_int (int n * r) / R / 2 ^ 53" and
    qh0: "0 \<le> qh" and res: "new_len n r ratio = Some \<lfloor>qh\<rfloor>"
    unfolding X_def by blast
  define v where "v = rat_of_int (int n * r) / R"
  have rpos: "0 < ratio" using assms(1) by linarith
  have Xpos: "0 < X" using rpos assms(3) by (simp add: X_def)
  have R_lo: "X * (1 - 1 / 2 ^ 53) \<le> R" and R_hi: "R \<le> X * (1 + 1 / 2 ^ 53)"
    using abs_le_D1[OF Rerr] abs_le_D2[OF Rerr] by (simp_all add: field_simps)
  have qX: "q * X = rat_of_int (int n * r)" using rpos assms(3) by (simp add: q_def X_def)
  have vpos: "0 \<le> v" using Rpos assms(3) by (simp add: v_def)
  have vR: "v * R = q * X" using Rpos by (simp add: v_def qX)
  have qpos: "0 \<le> q" using rpos by (simp add: q_def)
  have v1: "v * (1 - 1 / 2 ^ 53) \<le> q"
  proof -
    have "(v * (1 - 1 / 2 ^ 53)) * X = v * (X * (1 - 1 / 2 ^ 53))" by (simp only: mult_ac)
    also have "\<dots> \<le> v * R" using R_lo vpos by (intro mult_left_mono) simp_all
    also have "\<dots> = q * X" by (rule vR)
    finally show ?thesis using Xpos by (simp only: mult_le_cancel_right_pos)
  qed
  have v2: "q \<le> v * (1 + 1 / 2 ^ 53)"
  proof -
    have "q * X = v * R" by (rule vR[symmetric])
    also have "\<dots> \<le> v * (X * (1 + 1 / 2 ^ 53))" using R_hi vpos by (intro mult_left_mono) simp_all
    also have "\<dots> = (v * (1 + 1 / 2 ^ 53)) * X" by (simp only: mult_ac)
    finally show ?thesis using Xpos by (simp only: mult_le_cancel_right_pos)
  qed
  have qerr': "\<bar>qh - v\<bar> \<le> v / 2 ^ 53" using qerr by (simp add: v_def)
  have "\<bar>qh - q\<bar> \<le> 3 * q / 2 ^ 53"
  proof -
    have "qh - q \<le> 3 * q / 2 ^ 53"
      using abs_le_D1[OF qerr'] v1 v2 vpos qpos by (simp add: field_simps)
    moreover have "- (qh - q) \<le> 3 * q / 2 ^ 53"
      using abs_le_D2[OF qerr'] v1 v2 vpos qpos by (simp add: field_simps)
    ultimately show ?thesis by (rule abs_leI)
  qed
  then show ?thesis using res qh0 by (auto simp: q_def)
qed

lemma floor_close:
  fixes a b :: rat
  assumes "\<bar>a - b\<bar> < 1"
  shows "\<bar>\<lfloor>a\<rfloor> - \<lfloor>b\<rfloor>\<bar> \<le> 1"
proof -
  have "rat_of_int \<lfloor>a\<rfloor> \<le> a" "a < rat_of_int \<lfloor>a\<rfloor> + 1"
       "rat_of_int \<lfloor>b\<rfloor> \<le> b" "b < rat_of_int \<lfloor>b\<rfloor> + 1" by linarith+
  then have "rat_of_int \<lfloor>a\<rfloor> - rat_of_int \<lfloor>b\<rfloor> < 2" "rat_of_int \<lfloor>b\<rfloor> - rat_of_int \<lfloor>a\<rfloor> < 2"
    using assms by linarith+
  then have "rat_of_int (\<lfloor>a\<rfloor> - \<lfloor>b\<rfloor>) < rat_of_int 2" "rat_of_int (\<lfloor>b\<rfloor> - \<lfloor>a\<rfloor>) < rat_of_int 2" by simp_all
  then have "\<lfloor>a\<rfloor> - \<lfloor>b\<rfloor> < 2" "\<lfloor>b\<rfloor> - \<lfloor>a\<rfloor> < 2" by (simp_all only: of_int_less_iff)
  then show ?thesis by linarith
qed

lemma quotient_small:
  fixes n :: nat
  assumes "1 / 2 \<le> ratio" "n < 2 ^ 31"
  shows "3 * (rat_of_nat n / ratio) / 2 ^ 53 < 1 / 4"
proof -
  have "rat_of_nat n \<le> 2 ^ 31" using assms(2) by (metis less_imp_le of_nat_le_numeral_power_cancel_iff)
  then have "rat_of_nat n / ratio \<le> 2 ^ 31 / (1 / 2)" using assms(1) by (intro frac_le) simp_all
  then show ?thesis by simp
qed

lemma round_f64_eqI:
  assumes "0 < x" "two_powi e \<le> x" "x < two_powi (e + 1)" "- 1022 \<le> e"
    and "\<bar>x / two_powi (e - 52) - rat_of_int m\<bar> < 1 / 2"
    and "rat_of_int m * two_powi (e - 52) < 2 ^ 1024"
    and "y = rat_of_int m * two_powi (e - 52)"
  shows "round_f64 x = Finite y"
  using round_pos_eqI[OF assms(1-6)] assms(1,7) by (simp add: round_f64_pos)

lemma new_len_evalI:
  assumes "0 \<le> int n * r" "int n * r < 2 ^ 53" "0 \<le> r" "r < 2 ^ 53"
    and "round_f64 (ratio * rat_of_int r) = Finite R" "R \<noteq> 0"
    and "round_f64 (rat_of_int (int n * r) / R) = Finite qh" "0 \<le> qh"
    and "rat_of_int k \<le> qh" "qh < rat_of_int k + 1"
  shows "new_len n r ratio = Some k"
proof -
  have "\<lfloor>qh\<rfloor> = k" using assms(9,10) by linarith
  then show ?thesis
    using assms(5-8) f64_of_int_exact[OF assms(1,2)] f64_of_int_exact[OF assms(3,4)]
    by (simp add: new_len_def f64_mul_def)
qed

lemma lo_default_value: "lo_default = 8106479329266893 / 9007199254740992"
proof -
  have "round_f64 (9 / 10) = Finite (8106479329266893 / 9007199254740992)"
    by (rule round_f64_eqI[where e = "- 1" and m = 8106479329266893]) (simp_all add: two_powi_def)
  then show ?thesis by (simp add: lo_default_def float_literal_def)
qed

lemma hi_default_value: "hi_default = 4953959590107546 / 4503599627370496"
proof -
  have "round_f64 (11 / 10) = Finite (4953959590107546 / 4503599627370496)"
    by (rule round_f64_eqI[where e = 0 and m = 4953959590107546]) (simp_all add: two_powi_def)
  then show ?thesis by (simp add: hi_default_def float_literal_def)
qed







section \<open>What one traversal of a pipeline computes\<close>

lemma read_entries_signal [simp]: "read_entries signal_of_entry (map Signal_entry xs) = Some xs"
  by (induction xs) simp_all

lemma read_entries_feature [simp]: "read_entries feature_of_entry (map Feature_entry xs) = Some xs"
  by (induction xs) simp_all

lemma map_rng_utt_id:
  assumes "\<And>x g y g'. f x g = Some (y, g') \<Longrightarrow> utt_id y = utt_id x"
  shows "map_rng f xs g = Some (ys, g') \<Longrightarrow> map utt_id ys = map utt_id xs"
proof (induction xs arbitrary: g ys g')
  case Nil
  then show ?case by simp
next
  case (Cons x xs)
  then show ?case
    using assms by (fastforce split: option.splits prod.splits)
qed

lemma speed_utt_id: "random_speed_change_wrapper env x g = Some (y, g') \<Longrightarrow> utt_id y = utt_id x"
  by (auto simp: random_speed_change_wrapper_def split: if_splits option.splits prod.splits)

lemma filter_utt_id: "random_filter_wrapper env x g = (y, g') \<Longrightarrow> utt_id y = utt_id x"
  by (auto simp: random_filter_wrapper_def Let_def split: prod.splits)

lemma stage_events_cong: "map utt_id ys = map utt_id xs \<Longrightarrow> stage_events tag ys = stage_events tag xs"
  unfolding stage_events_def
  by (metis (mono_tags, lifting) map_map comp_def map_eq_conv list.map_cong0)

lemma miss_other:
  assumes "split_name \<noteq> ''train''" "cache st split_name = None"
  shows "fst (pipeline_from_metadata env data split_name st0) st =
      Some (map (batch_extract_features env) (conditioned env data),
            stage_events Read_mp3 data @ stage_events Extract_features (conditioned env data),
            st\<lparr>cache := (cache st)(split_name \<mapsto> map Signal_entry (conditioned env data))\<rparr>)"
  using assms
  by (simp add: pipeline_from_metadata_def ds_prefetch_def ds_cache_def ds_filter_def ds_map_def
      from_tensor_slices_def ds_unbatch_def ds_batch_def conditioned_def stage_events_def)

lemma hit_other:
  assumes "split_name \<noteq> ''train''" "cache st split_name = Some (map Signal_entry xs)"
  shows "fst (pipeline_from_metadata env data split_name st0) st =
      Some (map (batch_extract_features env) xs, stage_events Extract_features xs, st)"
  using assms
  by (simp add: pipeline_from_metadata_def ds_prefetch_def ds_cache_def ds_filter_def ds_map_def
      from_tensor_slices_def ds_unbatch_def ds_batch_def conditioned_def stage_events_def)

lemma map_rng_some_utt_id:
  "map_rng (\<lambda>x g. Some (random_filter_wrapper env x g)) xs g = Some (ys, g')
     \<Longrightarrow> map utt_id ys = map utt_id xs"
  by (rule map_rng_utt_id[where f = "\<lambda>x g. Some (random_filter_wrapper env x g)"])
     (auto dest: filter_utt_id)

lemma map_rng_speed_utt_id:
  "map_rng (random_speed_change_wrapper env) xs g = Some (ys, g')
     \<Longrightarrow> map utt_id ys = map utt_id xs"
  by (rule map_rng_utt_id[where f = "random_speed_change_wrapper env"]) (auto dest: speed_utt_id)

lemma augment_stages:
  assumes "augment env xs g = Some (zs, g')"
  shows "\<exists>ys g1. map_rng (random_speed_change_wrapper env) xs g = Some (ys, g1)
           \<and> map_rng (\<lambda>x g. Some (random_filter_wrapper env x g)) ys g1 = Some (zs, g')
           \<and> map utt_id ys = map utt_id xs \<and> map utt_id zs = map utt_id xs"
proof -
  from assms obtain ys g1 where
    s1: "map_rng (random_speed_change_wrapper env) xs g = Some (ys, g1)" and
    s2: "map_rng (\<lambda>x g. Some (random_filter_wrapper env x g)) ys g1 = Some (zs, g')"
    by (auto simp: augment_def split: option.splits prod.splits)
  have i1: "map utt_id ys = map utt_id xs" by (rule map_rng_speed_utt_id[OF s1])
  have i2: "map utt_id zs = map utt_id ys" by (rule map_rng_some_utt_id[OF s2])
  show ?thesis using s1 s2 i1 i2 by simp
qed

lemma train_after_cache:
  "ds_unbatch (ds_map Extract_features utt_id (batch_extract_features env) (ds_batch n
     (ds_map_rng Filter_signal utt_id (\<lambda>x g. Some (random_filter_wrapper env x g))
       (ds_map_rng Speed_change utt_id (random_speed_change_wrapper env) ds)))) st =
   (case ds st of
      None \<Rightarrow> None
    | Some (xs, ev, st') \<Rightarrow>
        (case augment env xs (np_rng st') of
           None \<Rightarrow> None
         | Some (zs, g') \<Rightarrow>
             Some (map (batch_extract_features env) zs,
                   ev @ stage_events Speed_change xs @ stage_events Filter_signal xs
                     @ stage_events Extract_features xs,
                   st'\<lparr>np_rng := g'\<rparr>)))"
proof (cases "ds st")
  case None
  then show ?thesis
    by (simp add: ds_unbatch_def ds_map_def ds_batch_def ds_map_rng_def)
next
  case (Some r)
  obtain xs ev st' where r: "r = (xs, ev, st')" by (cases r) auto
  show ?thesis
  proof (cases "augment env xs (np_rng st')")
    case None
    then show ?thesis using Some r
      by (auto simp: ds_unbatch_def ds_map_def ds_batch_def ds_map_rng_def augment_def
          split: option.splits prod.splits)
  next
    case (Some a)
    obtain zs g' where a: "a = (zs, g')" by (cases a) auto
    from Some a augment_stages[of env xs "np_rng st'" zs g'] obtain ys g1 where
      s1: "map_rng (random_speed_change_wrapper env) xs (np_rng st') = Some (ys, g1)" and
      s2: "map_rng (\<lambda>x g. Some (random_filter_wrapper env x g)) ys g1 = Some (zs, g')" and
      i1: "map utt_id ys = map utt_id xs" and i2: "map utt_id zs = map utt_id xs"
      by blast
    have e1: "map (\<lambda>x. (Filter_signal, utt_id x)) ys = stage_events Filter_signal xs"
      using stage_events_cong[OF i1, of Filter_signal] by (simp add: stage_events_def)
    have e2: "map (\<lambda>x. (Extract_features, utt_id x)) zs = stage_events Extract_features xs"
      using stage_events_cong[OF i2, of Extract_features] by (simp add: stage_events_def)
    show ?thesis using \<open>ds st = Some r\<close> r Some a s1 s2 e1 e2
      by (simp add: ds_unbatch_def ds_map_def ds_batch_def ds_map_rng_def stage_events_def)
  qed
qed

lemma pipeline_train_unfold:
  "fst (pipeline_from_metadata env data ''train'' st0) =
     ds_unbatch (ds_map Extract_features utt_id (batch_extract_features env) (ds_batch 1
       (ds_map_rng Filter_signal utt_id (\<lambda>x g. Some (random_filter_wrapper env x g))
         (ds_map_rng Speed_change utt_id (random_speed_change_wrapper env)
           (ds_prefetch 1000
             (ds_cache Signal_entry signal_of_entry ''train''
               (ds_prefetch 1000
                 (ds_filter signal_is_not_empty
                   (ds_map Read_mp3 utt_id (read_mp3 env)
                     (from_tensor_slices (shuffled_once env data ''train'' st0)))))))))))"
  by (cases "df_sample env data (np_random st0)")
     (simp add: pipeline_from_metadata_def shuffled_once_def)

lemma miss_train:
  assumes "cache st ''train'' = None"
  shows "fst (pipeline_from_metadata env data ''train'' st0) st =
      (let sigs = conditioned env (shuffled_once env data ''train'' st0) in
       case augment env sigs (np_rng st) of
         None \<Rightarrow> None
       | Some (zs, g') \<Rightarrow>
           Some (map (batch_extract_features env) zs,
                 stage_events Read_mp3 (shuffled_once env data ''train'' st0)
                   @ stage_events Speed_change sigs
                   @ stage_events Filter_signal sigs @ stage_events Extract_features sigs,
                 st\<lparr>cache := (cache st)(''train'' \<mapsto> map Signal_entry sigs), np_rng := g'\<rparr>))"
  unfolding pipeline_train_unfold train_after_cache
  using assms
  by (simp add: ds_prefetch_def ds_cache_def ds_filter_def ds_map_def from_tensor_slices_def
      conditioned_def Let_def stage_events_def split: prod.splits option.splits)

lemma hit_train:
  assumes "cache st ''train'' = Some (map Signal_entry xs)"
  shows "fst (pipeline_from_metadata env data ''train'' st0) st =
      (case augment env xs (np_rng st) of
         None \<Rightarrow> None
       | Some (zs, g') \<Rightarrow>
           Some (map (batch_extract_features env) zs,
                 stage_events Speed_change xs @ stage_events Filter_signal xs
                   @ stage_events Extract_features xs,
                 st\<lparr>np_rng := g'\<rparr>))"
  unfolding pipeline_train_unfold train_after_cache
  using assms
  by (simp add: ds_prefetch_def ds_cache_def ds_filter_def ds_map_def from_tensor_slices_def
      Let_def split: prod.splits option.splits)


lemma pipeline_from_meta_test:
  "fst (pipeline_from_meta env data ''test'' st0) =
     ds_prefetch 1000
       (ds_cache Feature_entry feature_of_entry ''test''
         (ds_unbatch
           (ds_map Extract_features utt_id (batch_extract_features env)
             (ds_batch 1 (ds_map Read_mp3 utt_id (read_mp3 env) (from_tensor_slices data))))))"
  by (simp add: pipeline_from_meta_def)

lemma miss_test:
  assumes "cache st ''test'' = None"
  shows "fst (pipeline_from_meta env data ''test'' st0) st =
     Some (map (batch_extract_features env) (map (read_mp3 env) data),
           stage_events Read_mp3 data @ stage_events Extract_features data,
           st\<lparr>cache := (cache st)(''test'' \<mapsto>
                 map Feature_entry (map (batch_extract_features env) (map (read_mp3 env) data)))\<rparr>)"
  unfolding pipeline_from_meta_test using assms
  by (simp add: ds_prefetch_def ds_cache_def ds_unbatch_def ds_batch_def ds_map_def
      from_tensor_slices_def stage_events_def read_mp3_def case_prod_beta Let_def comp_def)

lemma hit_test:
  assumes "cache st ''test'' = Some (map Feature_entry ys)"
  shows "fst (pipeline_from_meta env data ''test'' st0) st = Some (ys, [], st)"
  unfolding pipeline_from_meta_test using assms
  by (simp add: ds_prefetch_def ds_cache_def)

lemma pipeline_from_meta_other:
  assumes "split_name \<noteq> ''test''"
  shows "fst (pipeline_from_meta env data split_name st0) =
     ds_unbatch
       (ds_map Extract_features utt_id (batch_extract_features env)
         (ds_batch 1
           (ds_map_rng Filter_signal utt_id (\<lambda>x g. Some (random_filter_wrapper env x g))
             (emb_random_speed_change env
               (ds_prefetch 1000
                 (ds_cache Signal_entry signal_of_entry split_name
                   (ds_map Read_mp3 utt_id (read_mp3 env)
                     (from_tensor_slices (emb_rows env data split_name st0)))))))))"
  using assms
  by (cases "df_sample_rng env data (np_rng st0)") (simp add: pipeline_from_meta_def emb_rows_def)

lemma miss_meta_other:
  assumes "split_name \<noteq> ''test''" "cache st split_name = None"
    and "fst (pipeline_from_meta env data split_name st0) st = Some (out1, ev1, st1)"
  shows "cache st1 split_name =
           Some (map Signal_entry (map (read_mp3 env) (emb_rows env data split_name st0)))"
  using assms(2,3) unfolding pipeline_from_meta_other[OF assms(1)]
  by (auto simp: ds_prefetch_def ds_cache_def ds_unbatch_def ds_batch_def ds_map_def
      ds_map_rng_def emb_random_speed_change_def from_tensor_slices_def Let_def
      split: option.splits prod.splits)

lemma utt_id_read_mp3 [simp]: "utt_id (read_mp3 env m) = utt_id m"
  by (simp add: read_mp3_def case_prod_beta Let_def)

lemma utt_id_extract [simp]: "utt_id (batch_extract_features env x) = utt_id x"
  by (simp add: batch_extract_features_def Let_def)

lemma ids_conditioned:
  "map utt_id (conditioned env data) =
     map utt_id (filter (\<lambda>m. signal_is_not_empty (read_mp3 env m)) data)"
  by (induction data) (simp_all add: conditioned_def)

lemma cached_signals_not_empty:
  assumes "cache st split_name = None"
    and "fst (pipeline_from_metadata env data split_name st0) st = Some (out1, ev1, st1)"
  shows "\<exists>xs. cache st1 split_name = Some (map Signal_entry xs) \<and> (\<forall>x \<in> set xs. signal x \<noteq> [])"
proof (cases "split_name = ''train''")
  case True
  then show ?thesis using assms miss_train[of st env data st0]
    by (auto simp: Let_def conditioned_def signal_is_not_empty_def split: option.splits)
next
  case False
  then show ?thesis using assms miss_other[of split_name st env data st0]
    by (auto simp: conditioned_def signal_is_not_empty_def)
qed


lemmas toy_defs = toy_env_def toy_row_def toy_signal_def toy_feat_def toy_store_def
lemmas ds_defs = ds_prefetch_def ds_cache_def ds_filter_def ds_map_def ds_map_rng_def
  from_tensor_slices_def ds_unbatch_def ds_batch_def
lemmas stage_defs = read_mp3_def batch_extract_features_def signal_is_not_empty_def
  random_speed_change_wrapper_def random_filter_wrapper_def random_filter_def

section \<open>The length chosen by the speed change\<close>

lemma toy_ratio: "float_literal (lo_default + (hi_default - lo_default) * 3 / 4)
    = 4728779608739021 / 4503599627370496"
proof -
  have "round_f64 (lo_default + (hi_default - lo_default) * 3 / 4)
          = Finite (4728779608739021 / 4503599627370496)"
    unfolding lo_default_value hi_default_value
    by (rule round_f64_eqI[where e = 0 and m = 4728779608739021]) (simp_all add: two_powi_def)
  then show ?thesis by (simp add: float_literal_def)
qed

lemma toy_uniform:
  "rng_uniform toy_env lo_default hi_default 3 = (4728779608739021 / 4503599627370496, 4)"
  using toy_ratio by (simp add: toy_env_def)



lemma toy_new_len: "new_len (length [1, 1, 1 :: int]) 16000 (4728779608739021 / 4503599627370496) = Some 2"
proof (rule new_len_evalI)
  show "round_f64 (4728779608739021 / 4503599627370496 * rat_of_int 16000) = Finite 16800"
    by (rule round_f64_eqI[where e = 14 and m = 4617948836659200]) (simp_all add: two_powi_def)
  show "round_f64 (rat_of_int (int (length [1, 1, 1 :: int]) * 16000) / 16800)
          = Finite (6433713753386423 / 2251799813685248)"
    by (rule round_f64_eqI[where e = 1 and m = 6433713753386423]) (simp_all add: two_powi_def)
qed simp_all

lemma toy_speed_change:
  "random_speed_change_wrapper toy_env (toy_signal ''b'' ''xyz'' ''train'' True [1, 1, 1]) 3
     = Some (toy_signal ''b'' ''xyz'' ''train'' True [1, 1], 4)"
  using toy_uniform toy_new_len
  apply (simp add: random_speed_change_wrapper_def random_speed_change_def toy_signal_def)
  apply (simp add: toy_env_def)
  apply (simp add: numeral_2_eq_2)
  done


lemma new_len_example_16000:
  "new_len 10 16000 (8188362958855448 / 9007199254740992) = Some 11"
proof (rule new_len_evalI)
  show "round_f64 (8188362958855448 / 9007199254740992 * rat_of_int 16000)
          = Finite (7996448202007273 / 549755813888)"
    by (rule round_f64_eqI[where e = 13 and m = 7996448202007273]) (simp_all add: two_powi_def)
  show "round_f64 (rat_of_int (int 10 * 16000) / (7996448202007273 / 549755813888)) = Finite 11"
    by (rule round_f64_eqI[where e = 3 and m = 6192449487634432]) (simp_all add: two_powi_def)
qed simp_all

lemma new_len_example_44100:
  "new_len 10 44100 (8188362958855448 / 9007199254740992) = Some 10"
proof (rule new_len_evalI)
  show "round_f64 (8188362958855448 / 9007199254740992 * rat_of_int 44100)
          = Finite (5510052589195637 / 137438953472)"
    by (rule round_f64_eqI[where e = 15 and m = 5510052589195637]) (simp_all add: two_powi_def)
  show "round_f64 (rat_of_int (int 10 * 44100) / (5510052589195637 / 137438953472))
          = Finite (6192449487634431 / 562949953421312)"
    by (rule round_f64_eqI[where e = 3 and m = 6192449487634431]) (simp_all add: two_powi_def)
qed simp_all

lemma example_ratio_f64: "is_f64 (8188362958855448 / 9007199254740992)"
  unfolding is_f64_def
  by (rule round_f64_eqI[where e = "- 1" and m = 8188362958855448]) (simp_all add: two_powi_def)


text \<open>
  Against C10 as stated: for a signal of ten samples and the binary64 ratio
  \<open>0.9090909090909092\<close> (inside the range of the draw), the length computed at a sample
  rate of 16000 is 11, at 44100 it is 10, and the truncation of \<open>len(s) / ratio\<close> is 10.
  The sample rate cancels from the exact quotient, not from the rounded one.
\<close>

theorem new_len_depends_on_rate_counterexample:
  "new_len 10 16000 (8188362958855448 / 9007199254740992) = Some 11
   \<and> new_len 10 44100 (8188362958855448 / 9007199254740992) = Some 10
   \<and> \<lfloor>10 / (8188362958855448 / 9007199254740992 :: rat)\<rfloor> = 10
   \<and> is_f64 (8188362958855448 / 9007199254740992)
   \<and> lo_default \<le> 8188362958855448 / 9007199254740992
   \<and> 8188362958855448 / 9007199254740992 \<le> hi_default"
proof -
  have "\<lfloor>10 / (8188362958855448 / 9007199254740992 :: rat)\<rfloor> = 10"
    by (rule floor_unique) simp_all
  then show ?thesis
    using new_len_example_16000 new_len_example_44100 example_ratio_f64
    by (simp add: lo_default_value hi_default_value)
qed

text \<open>
  C10, amended.  For a signal of fewer than \<open>2 ^ 31\<close> samples, sample rates \<open>r\<close> and
  \<open>r'\<close> between 1 and \<open>2 ^ 22\<close> and a ratio between 1/2 and 2, the speed-change
  operation returns a length for either rate; it is the truncation of the binary64
  quotient of \<open>len(s) * r\<close> by the binary64 product \<open>ratio * r\<close>, it differs from the
  truncation of \<open>len(s) / ratio\<close> by at most one, and the lengths chosen for the two
  rates differ by at most one.
\<close>

theorem new_len_within_one_of_truncation:
  fixes n :: nat
  assumes "1 / 2 \<le> ratio" "ratio \<le> 2" "0 < r" "r < 2 ^ 22" "0 < r'" "r' < 2 ^ 22" "n < 2 ^ 31"
  shows "\<exists>k k'. new_len n r ratio = Some k \<and> new_len n r' ratio = Some k'
           \<and> \<bar>k - \<lfloor>rat_of_nat n / ratio\<rfloor>\<bar> \<le> 1 \<and> \<bar>k - k'\<bar> \<le> 1"
proof -
  define q where "q = rat_of_nat n / ratio"
  from new_len_quotient[OF assms(1,2,3,4,7)] obtain qh where
    k: "new_len n r ratio = Some \<lfloor>qh\<rfloor>" and e: "\<bar>qh - q\<bar> \<le> 3 * q / 2 ^ 53"
    unfolding q_def by blast
  from new_len_quotient[OF assms(1,2,5,6,7)] obtain qh' where
    k': "new_len n r' ratio = Some \<lfloor>qh'\<rfloor>" and e': "\<bar>qh' - q\<bar> \<le> 3 * q / 2 ^ 53"
    unfolding q_def by blast
  have small: "3 * q / 2 ^ 53 < 1 / 4" unfolding q_def using quotient_small[OF assms(1,7)] by simp
  have "\<bar>qh - q\<bar> < 1" using e small by linarith
  then have a: "\<bar>\<lfloor>qh\<rfloor> - \<lfloor>q\<rfloor>\<bar> \<le> 1" by (rule floor_close)
  have "\<bar>qh - qh'\<bar> < 1" using e e' small by linarith
  then have b: "\<bar>\<lfloor>qh\<rfloor> - \<lfloor>qh'\<rfloor>\<bar> \<le> 1" by (rule floor_close)
  show ?thesis using k k' a b unfolding q_def by blast
qed

theorem new_len_within_one_of_truncation_witness:
  "(1 / 2 \<le> (8188362958855448 / 9007199254740992 :: rat)
    \<and> (8188362958855448 / 9007199254740992 :: rat) \<le> 2
    \<and> (0::int) < 16000 \<and> (16000::int) < 2 ^ 22 \<and> (0::int) < 44100 \<and> (44100::int) < 2 ^ 22
    \<and> (10::nat) < 2 ^ 31)
   \<and> (\<exists>k k'. new_len 10 16000 (8188362958855448 / 9007199254740992) = Some k
          \<and> new_len 10 44100 (8188362958855448 / 9007199254740992) = Some k'
          \<and> \<bar>k - \<lfloor>rat_of_nat 10 / (8188362958855448 / 9007199254740992)\<rfloor>\<bar> \<le> 1
          \<and> \<bar>k - k'\<bar> \<le> 1)"
proof -
  have h: "1 / 2 \<le> (8188362958855448 / 9007199254740992 :: rat)"
    "(8188362958855448 / 9007199254740992 :: rat) \<le> 2"
    "(0::int) < 16000" "(16000::int) < 2 ^ 22" "(0::int) < 44100" "(44100::int) < 2 ^ 22"
    "(10::nat) < 2 ^ 31"
    by simp_all
  show ?thesis
    using new_len_within_one_of_truncation[OF h] h by blast
qed







section \<open>The augmentation stages\<close>

text \<open>
  C3.  The speed change is applied exactly to the records flagged \<^verbatim>\<open>is_copy\<close>: a record
  with \<open>is_copy = False\<close> is returned unchanged, without a draw from the generator; for
  a record with \<open>is_copy = True\<close> a ratio is drawn from the generator (whose state
  advances), a length is computed from that ratio, and the signal is replaced by what
  the resampler returns for the signal and that length (an exception of the resampler
  ends the call).  For a draw between 1/2 and 2, a sample rate between 1 and \<open>2 ^ 22\<close>
  and fewer than \<open>2 ^ 31\<close> samples the length computation raises nothing, and the length
  is within one of the truncation of \<open>len(s) / ratio\<close>.
\<close>

theorem speed_change_exactly_for_copies:
  "(\<not> is_copy x \<longrightarrow> random_speed_change_wrapper env x g = Some (x, g))
   \<and> (is_copy x \<longrightarrow>
        random_speed_change_wrapper env x g =
          (case new_len (length (signal x)) (sample_rate x)
                  (fst (rng_uniform env lo_default hi_default g)) of
             None \<Rightarrow> None
           | Some n \<Rightarrow>
               (case scipy_resample env (signal x) n of
                  None \<Rightarrow> None
                | Some y \<Rightarrow>
                    Some (x\<lparr>signal := astype_float32 env y\<rparr>,
                          snd (rng_uniform env lo_default hi_default g)))))
   \<and> (is_copy x \<and> 1 / 2 \<le> fst (rng_uniform env lo_default hi_default g)
        \<and> fst (rng_uniform env lo_default hi_default g) \<le> 2
        \<and> 0 < sample_rate x \<and> sample_rate x < 2 ^ 22 \<and> length (signal x) < 2 ^ 31 \<longrightarrow>
        (\<exists>n. new_len (length (signal x)) (sample_rate x)
                (fst (rng_uniform env lo_default hi_default g)) = Some n
            \<and> 0 \<le> n
            \<and> \<bar>n - \<lfloor>rat_of_nat (length (signal x))
                       / fst (rng_uniform env lo_default hi_default g)\<rfloor>\<bar> \<le> 1
            \<and> random_speed_change_wrapper env x g =
                (case scipy_resample env (signal x) n of
                   None \<Rightarrow> None
                 | Some y \<Rightarrow>
                     Some (x\<lparr>signal := astype_float32 env y\<rparr>,
                           snd (rng_uniform env lo_default hi_default g)))))"
proof (intro conjI impI)
  assume "\<not> is_copy x"
  then show "random_speed_change_wrapper env x g = Some (x, g)"
    by (simp add: random_speed_change_wrapper_def)
next
  assume "is_copy x"
  then show "random_speed_change_wrapper env x g =
          (case new_len (length (signal x)) (sample_rate x)
                  (fst (rng_uniform env lo_default hi_default g)) of
             None \<Rightarrow> None
           | Some n \<Rightarrow>
               (case scipy_resample env (signal x) n of
                  None \<Rightarrow> None
                | Some y \<Rightarrow>
                    Some (x\<lparr>signal := astype_float32 env y\<rparr>,
                          snd (rng_uniform env lo_default hi_default g))))"
    by (simp add: random_speed_change_wrapper_def random_speed_change_def case_prod_beta
        split: option.splits)
next
  define ratio where "ratio = fst (rng_uniform env lo_default hi_default g)"
  define q where "q = rat_of_nat (length (signal x)) / ratio"
  assume A: "is_copy x \<and> 1 / 2 \<le> fst (rng_uniform env lo_default hi_default g)
        \<and> fst (rng_uniform env lo_default hi_default g) \<le> 2
        \<and> 0 < sample_rate x \<and> sample_rate x < 2 ^ 22 \<and> length (signal x) < 2 ^ 31"
  then have a: "1 / 2 \<le> ratio" "ratio \<le> 2"
    "0 < sample_rate x" "sample_rate x < 2 ^ 22" "length (signal x) < 2 ^ 31"
    by (simp_all add: ratio_def)
  from new_len_quotient[OF a] obtain qh :: rat where
    k: "new_len (length (signal x)) (sample_rate x) ratio = Some \<lfloor>qh\<rfloor>" and q0: "0 \<le> qh"
    and e: "\<bar>qh - q\<bar> \<le> 3 * q / 2 ^ 53"
    unfolding q_def by blast
  have small: "3 * q / 2 ^ 53 < 1 / 4"
    unfolding q_def using quotient_small[OF a(1) a(5)] by simp
  have "\<bar>qh - q\<bar> < 1" using e small by linarith
  then have c: "\<bar>\<lfloor>qh\<rfloor> - \<lfloor>q\<rfloor>\<bar> \<le> 1" by (rule floor_close)
  have b: "0 \<le> \<lfloor>qh\<rfloor>" using q0 by simp
  have w: "random_speed_change_wrapper env x g =
                (case scipy_resample env (signal x) \<lfloor>qh\<rfloor> of
                   None \<Rightarrow> None
                 | Some y \<Rightarrow>
                     Some (x\<lparr>signal := astype_float32 env y\<rparr>,
                           snd (rng_uniform env lo_default hi_default g)))"
    using A k
    by (simp add: random_speed_change_wrapper_def random_speed_change_def case_prod_beta
        ratio_def split: option.splits)
  show "\<exists>n. new_len (length (signal x)) (sample_rate x)
                (fst (rng_uniform env lo_default hi_default g)) = Some n
            \<and> 0 \<le> n
            \<and> \<bar>n - \<lfloor>rat_of_nat (length (signal x))
                       / fst (rng_uniform env lo_default hi_default g)\<rfloor>\<bar> \<le> 1
            \<and> random_speed_change_wrapper env x g =
                (case scipy_resample env (signal x) n of
                   None \<Rightarrow> None
                 | Some y \<Rightarrow>
                     Some (x\<lparr>signal := astype_float32 env y\<rparr>,
                           snd (rng_uniform env lo_default hi_default g)))"
    using k b c w unfolding q_def ratio_def by (intro exI[of _ "\<lfloor>qh\<rfloor>"]) simp
qed

theorem speed_change_exactly_for_copies_witness:
  "(\<not> is_copy (toy_signal ''a'' ''xy'' ''train'' False [1, 1])
    \<and> random_speed_change_wrapper toy_env (toy_signal ''a'' ''xy'' ''train'' False [1, 1]) 3
        = Some (toy_signal ''a'' ''xy'' ''train'' False [1, 1], 3))
   \<and> (is_copy (toy_signal ''b'' ''xyz'' ''train'' True [1, 1, 1])
      \<and> 1 / 2 \<le> fst (rng_uniform toy_env lo_default hi_default 3)
      \<and> fst (rng_uniform toy_env lo_default hi_default 3) \<le> 2
      \<and> 0 < sample_rate (toy_signal ''b'' ''xyz'' ''train'' True [1, 1, 1])
      \<and> sample_rate (toy_signal ''b'' ''xyz'' ''train'' True [1, 1, 1]) < 2 ^ 22
      \<and> length (signal (toy_signal ''b'' ''xyz'' ''train'' True [1, 1, 1])) < 2 ^ 31
      \<and> (\<exists>n. new_len (length (signal (toy_signal ''b'' ''xyz'' ''train'' True [1, 1, 1])))
                (sample_rate (toy_signal ''b'' ''xyz'' ''train'' True [1, 1, 1]))
                (fst (rng_uniform toy_env lo_default hi_default 3)) = Some n
            \<and> \<bar>n - \<lfloor>rat_of_nat (length (signal (toy_signal ''b'' ''xyz'' ''train'' True [1, 1, 1])))
                       / fst (rng_uniform toy_env lo_default hi_default 3)\<rfloor>\<bar> \<le> 1)
      \<and> random_speed_change_wrapper toy_env (toy_signal ''b'' ''xyz'' ''train'' True [1, 1, 1]) 3
          = Some (toy_signal ''b'' ''xyz'' ''train'' True [1, 1], 4))"
proof -
  have a: "\<not> is_copy (toy_signal ''a'' ''xy'' ''train'' False [1, 1])"
    by (simp add: toy_signal_def)
  have b: "is_copy (toy_signal ''b'' ''xyz'' ''train'' True [1, 1, 1])
      \<and> 1 / 2 \<le> fst (rng_uniform toy_env lo_default hi_default 3)
      \<and> fst (rng_uniform toy_env lo_default hi_default 3) \<le> 2
      \<and> 0 < sample_rate (toy_signal ''b'' ''xyz'' ''train'' True [1, 1, 1])
      \<and> sample_rate (toy_signal ''b'' ''xyz'' ''train'' True [1, 1, 1]) < 2 ^ 22
      \<and> length (signal (toy_signal ''b'' ''xyz'' ''train'' True [1, 1, 1])) < 2 ^ 31"
    by (simp add: toy_uniform) (simp add: toy_signal_def)
  from speed_change_exactly_for_copies[of "toy_signal ''a'' ''xy'' ''train'' False [1, 1]" toy_env 3] a
  have 1: "random_speed_change_wrapper toy_env (toy_signal ''a'' ''xy'' ''train'' False [1, 1]) 3
        = Some (toy_signal ''a'' ''xy'' ''train'' False [1, 1], 3)" by blast
  from speed_change_exactly_for_copies[of "toy_signal ''b'' ''xyz'' ''train'' True [1, 1, 1]" toy_env 3,
      THEN conjunct2, THEN conjunct2, rule_format, OF b]
  obtain n where
    "new_len (length (signal (toy_signal ''b'' ''xyz'' ''train'' True [1, 1, 1])))
                (sample_rate (toy_signal ''b'' ''xyz'' ''train'' True [1, 1, 1]))
                (fst (rng_uniform toy_env lo_default hi_default 3)) = Some n"
    "\<bar>n - \<lfloor>rat_of_nat (length (signal (toy_signal ''b'' ''xyz'' ''train'' True [1, 1, 1])))
                       / fst (rng_uniform toy_env lo_default hi_default 3)\<rfloor>\<bar> \<le> 1"
    by blast
  then have 2: "\<exists>n. new_len (length (signal (toy_signal ''b'' ''xyz'' ''train'' True [1, 1, 1])))
                (sample_rate (toy_signal ''b'' ''xyz'' ''train'' True [1, 1, 1]))
                (fst (rng_uniform toy_env lo_default hi_default 3)) = Some n
            \<and> \<bar>n - \<lfloor>rat_of_nat (length (signal (toy_signal ''b'' ''xyz'' ''train'' True [1, 1, 1])))
                       / fst (rng_uniform toy_env lo_default hi_default 3)\<rfloor>\<bar> \<le> 1"
    by blast
  show ?thesis using a b 1 2 toy_speed_change by (intro conjI) simp_all
qed

text \<open>
  C9.  The two augmentation wrappers change the \<^verbatim>\<open>signal\<close> field only: the record
  returned by the speed-change wrapper and the record returned by the filter wrapper
  agree with the input on \<^verbatim>\<open>id\<close>, \<^verbatim>\<open>path\<close>, \<^verbatim>\<open>label\<close>, \<^verbatim>\<open>target\<close>, \<^verbatim>\<open>split\<close>,
  \<^verbatim>\<open>is_copy\<close> and \<^verbatim>\<open>sample_rate\<close>.
\<close>

theorem wrappers_change_only_signal:
  "(random_speed_change_wrapper env x g = Some (y, g') \<longrightarrow> same_but_signal x y)
   \<and> same_but_signal x (fst (random_filter_wrapper env x g))"
  by (auto simp: same_but_signal_def random_speed_change_wrapper_def random_filter_wrapper_def
      Let_def case_prod_beta split: if_splits option.splits prod.splits)

theorem wrappers_change_only_signal_witness:
  "random_speed_change_wrapper toy_env (toy_signal ''b'' ''xyz'' ''train'' True [1, 1, 1]) 3
     = Some (toy_signal ''b'' ''xyz'' ''train'' True [1, 1], 4)
   \<and> same_but_signal (toy_signal ''b'' ''xyz'' ''train'' True [1, 1, 1])
        (toy_signal ''b'' ''xyz'' ''train'' True [1, 1])
   \<and> same_but_signal (toy_signal ''b'' ''xyz'' ''train'' True [1, 1, 1])
        (fst (random_filter_wrapper toy_env (toy_signal ''b'' ''xyz'' ''train'' True [1, 1, 1]) 3))"
  using wrappers_change_only_signal[of toy_env "toy_signal ''b'' ''xyz'' ''train'' True [1, 1, 1]" 3
      "toy_signal ''b'' ''xyz'' ''train'' True [1, 1]" 4] toy_speed_change
  by blast

section \<open>The cache boundary, the order of the stages and the order of the utterances\<close>

lemma first_traversal:
  assumes "cache st split_name = None"
    and "fst (pipeline_from_metadata env data split_name st0) st = Some (out1, ev1, st1)"
  shows "\<exists>zs. st1 = st\<lparr>cache := (cache st)(split_name \<mapsto>
                    map Signal_entry (conditioned env (shuffled_once env data split_name st0))),
                  np_rng := np_rng st1\<rparr>
          \<and> out1 = map (batch_extract_features env) zs
          \<and> map utt_id zs = map utt_id (conditioned env (shuffled_once env data split_name st0))"
proof (cases "split_name = ''train''")
  case True
  from assms miss_train[of st env data st0] True
  obtain zs g' where a: "augment env (conditioned env (shuffled_once env data ''train'' st0)) (np_rng st)
      = Some (zs, g')"
    and o: "out1 = map (batch_extract_features env) zs"
    and s: "st1 = st\<lparr>cache := (cache st)(''train'' \<mapsto>
              map Signal_entry (conditioned env (shuffled_once env data ''train'' st0))),
            np_rng := g'\<rparr>"
    by (auto simp: Let_def split: option.splits)
  from augment_stages[OF a] have "map utt_id zs
      = map utt_id (conditioned env (shuffled_once env data ''train'' st0))" by blast
  then show ?thesis using o s True by (intro exI[of _ zs]) simp
next
  case False
  from assms miss_other[OF False, of st env data st0]
  have "out1 = map (batch_extract_features env) (conditioned env data)"
    "st1 = st\<lparr>cache := (cache st)(split_name \<mapsto> map Signal_entry (conditioned env data))\<rparr>"
    by simp_all
  then show ?thesis using False
    by (intro exI[of _ "conditioned env data"]) (simp add: shuffled_once_def)
qed

lemma later_traversal:
  assumes "cache st1 split_name = Some (map Signal_entry xs)"
    and "fst (pipeline_from_metadata env data split_name st0) st1 = Some (out2, ev2, st2)"
  shows "\<exists>zs. st2 = st1\<lparr>np_rng := np_rng st2\<rparr>
          \<and> out2 = map (batch_extract_features env) zs
          \<and> map utt_id zs = map utt_id xs
          \<and> ev2 = (if split_name = ''train''
                    then stage_events Speed_change xs @ stage_events Filter_signal xs else [])
                   @ stage_events Extract_features xs"
proof (cases "split_name = ''train''")
  case True
  from assms hit_train[of st1 xs env data st0] True
  obtain zs g' where a: "augment env xs (np_rng st1) = Some (zs, g')"
    and o: "out2 = map (batch_extract_features env) zs"
    and e: "ev2 = stage_events Speed_change xs @ stage_events Filter_signal xs
                   @ stage_events Extract_features xs"
    and s: "st2 = st1\<lparr>np_rng := g'\<rparr>"
    by (auto split: option.splits)
  from augment_stages[OF a] have "map utt_id zs = map utt_id xs" by blast
  then show ?thesis using o e s True by (intro exI[of _ zs]) simp
next
  case False
  from assms hit_other[OF False, of st1 xs env data st0]
  have "out2 = map (batch_extract_features env) xs" "ev2 = stage_events Extract_features xs"
    "st2 = st1" by simp_all
  then show ?thesis using False by (intro exI[of _ xs]) simp
qed


text \<open>
  Against C1 as stated, on the dev split of the augmenting notebook: after the first
  traversal the cache file holds the record with its signal, not with its features, and
  the second traversal runs feature extraction again.
\<close>

theorem dev_cache_stores_signals_counterexample:
  "fst (pipeline_from_metadata toy_env [toy_row ''a'' ''xy'' ''dev'' False] ''dev'' toy_store)
       toy_store =
     Some ([toy_feat ''a'' ''xy'' ''dev'' False [1, 1]],
           [(Read_mp3, ''a''), (Extract_features, ''a'')],
           toy_store\<lparr>cache := [''dev'' \<mapsto> [Signal_entry (toy_signal ''a'' ''xy'' ''dev'' False [1, 1])]]\<rparr>)
   \<and> fst (pipeline_from_metadata toy_env [toy_row ''a'' ''xy'' ''dev'' False] ''dev'' toy_store)
       (toy_store\<lparr>cache := [''dev'' \<mapsto> [Signal_entry (toy_signal ''a'' ''xy'' ''dev'' False [1, 1])]]\<rparr>) =
     Some ([toy_feat ''a'' ''xy'' ''dev'' False [1, 1]],
           [(Extract_features, ''a'')],
           toy_store\<lparr>cache := [''dev'' \<mapsto> [Signal_entry (toy_signal ''a'' ''xy'' ''dev'' False [1, 1])]]\<rparr>)"
  by (simp add: pipeline_from_metadata_def ds_defs stage_defs toy_defs)

text \<open>
  C1, amended.  In the augmenting notebook the cache of every split (train, dev and test
  alike) stores the conditioned, non-empty signals, before augmentation and before
  feature extraction.  A second traversal leaves the cache as it is and decodes nothing:
  for the train split it runs the speed change and the filter on every cached record
  and feature extraction after them, for any other split it runs feature extraction on
  every cached record.  Only the test split of the embeddings notebook caches the fully
  processed features, and its second traversal runs no stage at all; every other split
  of that notebook caches the conditioned signals.
\<close>

theorem cache_holds_signals_in_every_split:
  assumes "cache st split_name = None"
    and "fst (pipeline_from_metadata env data split_name st0) st = Some (out1, ev1, st1)"
    and "fst (pipeline_from_metadata env data split_name st0) st1 = Some (out2, ev2, st2)"
  shows "cache st1 split_name =
           Some (map Signal_entry (conditioned env (shuffled_once env data split_name st0)))
       \<and> cache st2 = cache st1
       \<and> ev2 = (if split_name = ''train''
                 then stage_events Speed_change
                        (conditioned env (shuffled_once env data split_name st0))
                      @ stage_events Filter_signal
                          (conditioned env (shuffled_once env data split_name st0))
                 else [])
                @ stage_events Extract_features
                    (conditioned env (shuffled_once env data split_name st0))
       \<and> (cache st ''test'' = None \<longrightarrow>
            fst (pipeline_from_meta env data ''test'' st0) st =
              Some (map (batch_extract_features env) (map (read_mp3 env) data),
                    stage_events Read_mp3 data @ stage_events Extract_features data,
                    st\<lparr>cache := (cache st)(''test'' \<mapsto>
                          map Feature_entry
                            (map (batch_extract_features env) (map (read_mp3 env) data)))\<rparr>)
            \<and> fst (pipeline_from_meta env data ''test'' st0)
                 (st\<lparr>cache := (cache st)(''test'' \<mapsto>
                          map Feature_entry
                            (map (batch_extract_features env) (map (read_mp3 env) data)))\<rparr>) =
              Some (map (batch_extract_features env) (map (read_mp3 env) data), [],
                    st\<lparr>cache := (cache st)(''test'' \<mapsto>
                          map Feature_entry
                            (map (batch_extract_features env) (map (read_mp3 env) data)))\<rparr>))
       \<and> (split_name \<noteq> ''test''
            \<and> fst (pipeline_from_meta env data split_name st0) st = Some (out3, ev3, st3) \<longrightarrow>
            cache st3 split_name =
              Some (map Signal_entry (map (read_mp3 env) (emb_rows env data split_name st0))))"
proof -
  define sigs where "sigs = conditioned env (shuffled_once env data split_name st0)"
  have m: "split_name \<noteq> ''test''
            \<and> fst (pipeline_from_meta env data split_name st0) st = Some (out3, ev3, st3) \<longrightarrow>
            cache st3 split_name =
              Some (map Signal_entry (map (read_mp3 env) (emb_rows env data split_name st0)))"
    using miss_meta_other[OF _ assms(1)] by blast
  from first_traversal[OF assms(1,2)] have
    s1: "st1 = st\<lparr>cache := (cache st)(split_name \<mapsto> map Signal_entry sigs),
                   np_rng := np_rng st1\<rparr>"
    unfolding sigs_def by blast
  then have c1: "cache st1 split_name = Some (map Signal_entry sigs)"
    by (metis (no_types, lifting) fun_upd_same store.select_convs(1) store.surjective
        store.update_convs(1,2))
  from later_traversal[OF c1 assms(3)] have
    s2: "st2 = st1\<lparr>np_rng := np_rng st2\<rparr>" and
    e2: "ev2 = (if split_name = ''train''
               then stage_events Speed_change sigs @ stage_events Filter_signal sigs else [])
              @ stage_events Extract_features sigs"
    by blast+
  have c2: "cache st2 = cache st1"
    by (metis s2 store.select_convs(1) store.surjective store.update_convs(2))
  have t: "cache st ''test'' = None \<longrightarrow>
            fst (pipeline_from_meta env data ''test'' st0) st =
              Some (map (batch_extract_features env) (map (read_mp3 env) data),
                    stage_events Read_mp3 data @ stage_events Extract_features data,
                    st\<lparr>cache := (cache st)(''test'' \<mapsto>
                          map Feature_entry
                            (map (batch_extract_features env) (map (read_mp3 env) data)))\<rparr>)
            \<and> fst (pipeline_from_meta env data ''test'' st0)
                 (st\<lparr>cache := (cache st)(''test'' \<mapsto>
                          map Feature_entry
                            (map (batch_extract_features env) (map (read_mp3 env) data)))\<rparr>) =
              Some (map (batch_extract_features env) (map (read_mp3 env) data), [],
                    st\<lparr>cache := (cache st)(''test'' \<mapsto>
                          map Feature_entry
                            (map (batch_extract_features env) (map (read_mp3 env) data)))\<rparr>)"
    by (simp add: miss_test hit_test)
  show ?thesis using c1 c2 e2 t m unfolding sigs_def by blast
qed


lemma toy_train_first:
  "fst (pipeline_from_metadata toy_env
          [toy_row ''a'' ''xy'' ''train'' False, toy_row ''b'' ''xyz'' ''train'' False]
          ''train'' toy_store) (toy_store\<lparr>np_random := 1\<rparr>) =
     Some ([toy_feat ''b'' ''xyz'' ''train'' False [1, 1, 1],
            toy_feat ''a'' ''xy'' ''train'' False [1, 1]],
           [(Read_mp3, ''b''), (Read_mp3, ''a''), (Speed_change, ''b''), (Speed_change, ''a''),
            (Filter_signal, ''b''), (Filter_signal, ''a''),
            (Extract_features, ''b''), (Extract_features, ''a'')],
           \<lparr>cache = [''train'' \<mapsto>
                [Signal_entry (toy_signal ''b'' ''xyz'' ''train'' False [1, 1, 1]),
                 Signal_entry (toy_signal ''a'' ''xy'' ''train'' False [1, 1])]],
            np_rng = 2, np_random = 1, tf_random = 0\<rparr>)"
  by (simp add: pipeline_from_metadata_def ds_defs stage_defs toy_defs)

lemma toy_train_second:
  "fst (pipeline_from_metadata toy_env
          [toy_row ''a'' ''xy'' ''train'' False, toy_row ''b'' ''xyz'' ''train'' False]
          ''train'' toy_store)
        \<lparr>cache = [''train'' \<mapsto>
                [Signal_entry (toy_signal ''b'' ''xyz'' ''train'' False [1, 1, 1]),
                 Signal_entry (toy_signal ''a'' ''xy'' ''train'' False [1, 1])]],
            np_rng = 2, np_random = 1, tf_random = 0\<rparr> =
     Some ([toy_feat ''b'' ''xyz'' ''train'' False [1, 1, 1],
            toy_feat ''a'' ''xy'' ''train'' False [1, 1]],
           [(Speed_change, ''b''), (Speed_change, ''a''),
            (Filter_signal, ''b''), (Filter_signal, ''a''),
            (Extract_features, ''b''), (Extract_features, ''a'')],
           \<lparr>cache = [''train'' \<mapsto>
                [Signal_entry (toy_signal ''b'' ''xyz'' ''train'' False [1, 1, 1]),
                 Signal_entry (toy_signal ''a'' ''xy'' ''train'' False [1, 1])]],
            np_rng = 4, np_random = 1, tf_random = 0\<rparr>)"
  by (simp add: pipeline_from_metadata_def ds_defs stage_defs toy_defs)

lemma toy_train_fresh: "cache (toy_store\<lparr>np_random := 1\<rparr>) ''train'' = None"
  "cache (toy_store\<lparr>np_random := 1\<rparr>) ''test'' = None"
  by (simp_all add: toy_store_def)

lemma toy_train_conditioned:
  "conditioned toy_env (shuffled_once toy_env
       [toy_row ''a'' ''xy'' ''train'' False, toy_row ''b'' ''xyz'' ''train'' False]
       ''train'' toy_store) =
     [toy_signal ''b'' ''xyz'' ''train'' False [1, 1, 1],
      toy_signal ''a'' ''xy'' ''train'' False [1, 1]]"
  by (simp add: conditioned_def shuffled_once_def stage_defs toy_defs)

lemma toy_meta_train:
  "fst (pipeline_from_meta toy_env
          [toy_row ''a'' ''xy'' ''train'' False, toy_row ''b'' ''xyz'' ''train'' False]
          ''train'' toy_store) (toy_store\<lparr>np_random := 1\<rparr>) =
     Some ([toy_feat ''b'' ''xyz'' ''train'' False [1, 1, 1],
            toy_feat ''a'' ''xy'' ''train'' False [1, 1]],
           [(Read_mp3, ''b''), (Read_mp3, ''a''), (Speed_change, ''b''), (Speed_change, ''a''),
            (Filter_signal, ''b''), (Filter_signal, ''a''),
            (Extract_features, ''b''), (Extract_features, ''a'')],
           \<lparr>cache = [''train'' \<mapsto>
                [Signal_entry (toy_signal ''b'' ''xyz'' ''train'' False [1, 1, 1]),
                 Signal_entry (toy_signal ''a'' ''xy'' ''train'' False [1, 1])]],
            np_rng = 2, np_random = 1, tf_random = 1\<rparr>)"
  by (simp add: pipeline_from_meta_def emb_random_speed_change_def ds_defs stage_defs toy_defs)

theorem cache_holds_signals_in_every_split_witness:
  "(cache (toy_store\<lparr>np_random := 1\<rparr>) ''train'' = None
    \<and> cache (toy_store\<lparr>np_random := 1\<rparr>) ''test'' = None
    \<and> ''train'' \<noteq> ''test'')
   \<and> cache \<lparr>cache = [''train'' \<mapsto>
                [Signal_entry (toy_signal ''b'' ''xyz'' ''train'' False [1, 1, 1])
                   :: (int, int list) entry,
                 Signal_entry (toy_signal ''a'' ''xy'' ''train'' False [1, 1])]],
            np_rng = 2, np_random = 1, tf_random = (0::nat)\<rparr> ''train'' =
         Some (map Signal_entry (conditioned toy_env (shuffled_once toy_env
           [toy_row ''a'' ''xy'' ''train'' False, toy_row ''b'' ''xyz'' ''train'' False]
           ''train'' toy_store)))
   \<and> [(Speed_change, ''b''), (Speed_change, ''a''), (Filter_signal, ''b''),
       (Filter_signal, ''a''), (Extract_features, ''b''), (Extract_features, ''a'')] =
       (if ''train'' = ''train''
        then stage_events Speed_change (conditioned toy_env (shuffled_once toy_env
               [toy_row ''a'' ''xy'' ''train'' False, toy_row ''b'' ''xyz'' ''train'' False]
               ''train'' toy_store))
             @ stage_events Filter_signal (conditioned toy_env (shuffled_once toy_env
               [toy_row ''a'' ''xy'' ''train'' False, toy_row ''b'' ''xyz'' ''train'' False]
               ''train'' toy_store))
        else [])
       @ stage_events Extract_features (conditioned toy_env (shuffled_once toy_env
               [toy_row ''a'' ''xy'' ''train'' False, toy_row ''b'' ''xyz'' ''train'' False]
               ''train'' toy_store))
   \<and> cache \<lparr>cache = [''train'' \<mapsto>
                [Signal_entry (toy_signal ''b'' ''xyz'' ''train'' False [1, 1, 1])
                   :: (int, int list) entry,
                 Signal_entry (toy_signal ''a'' ''xy'' ''train'' False [1, 1])]],
            np_rng = 2, np_random = 1, tf_random = (1::nat)\<rparr> ''train'' =
         Some (map Signal_entry (map (read_mp3 toy_env) (emb_rows toy_env
           [toy_row ''a'' ''xy'' ''train'' False, toy_row ''b'' ''xyz'' ''train'' False]
           ''train'' toy_store)))"
proof -
  note T = cache_holds_signals_in_every_split[OF toy_train_fresh(1) toy_train_first
      toy_train_second,
      of "[toy_feat ''b'' ''xyz'' ''train'' False [1, 1, 1],
           toy_feat ''a'' ''xy'' ''train'' False [1, 1]]"
         "[(Read_mp3, ''b''), (Read_mp3, ''a''), (Speed_change, ''b''), (Speed_change, ''a''),
           (Filter_signal, ''b''), (Filter_signal, ''a''),
           (Extract_features, ''b''), (Extract_features, ''a'')]"
         "\<lparr>cache = [''train'' \<mapsto>
                [Signal_entry (toy_signal ''b'' ''xyz'' ''train'' False [1, 1, 1]),
                 Signal_entry (toy_signal ''a'' ''xy'' ''train'' False [1, 1])]],
            np_rng = 2, np_random = 1, tf_random = 1\<rparr>"]
  have n: "''train'' \<noteq> ''test''" by simp
  show ?thesis
    using T toy_train_fresh toy_meta_train n
    by (simp add: toy_train_conditioned stage_events_def toy_signal_def)
qed

text \<open>
  C2 fails on the embeddings notebook, whose pipeline has no empty-signal filter: a
  test-split utterance whose conditioned signal is empty reaches feature extraction, and
  its record is written to the cache.  (The pipeline of the augmenting notebook does
  filter: see \<open>cached_signals_not_empty\<close>.)
\<close>

theorem empty_signal_reaches_extraction:
  "fst (pipeline_from_meta toy_env [toy_row ''b'' [] ''test'' False] ''test'' toy_store)
       toy_store =
     Some ([toy_feat ''b'' [] ''test'' False []],
           [(Read_mp3, ''b''), (Extract_features, ''b'')],
           toy_store\<lparr>cache := [''test'' \<mapsto> [Feature_entry (toy_feat ''b'' [] ''test'' False [])]]\<rparr>)"
  by (simp add: pipeline_from_meta_def ds_defs stage_defs toy_defs)

text \<open>
  C5.  The filter stage draws 10 coefficients with \<^verbatim>\<open>np_rng.normal(0, 1, 10)\<close>, passes the
  signal through \<^verbatim>\<open>scipy.signal.lfilter\<close> with these coefficients as numerator, the
  denominator \<open>1.0\<close> and no initial state, and peak-normalises the result to -3 dBFS,
  the level the conditioner normalises every signal to.  On every traversal of the
  train split, whether the signals come from the decoder or from the cache, every
  record passes this stage before feature extraction.
\<close>

theorem random_filter_stage:
  "random_filter_wrapper env x g =
     (x\<lparr>signal :=
          audio_peak_normalize env
            (tf_cast_float32 env
              (astype_float32 env
                (scipy_lfilter env (fst (rng_normal env 0 1 10 g)) 1 (signal x))))
            (- 3)\<rparr>,
      snd (rng_normal env 0 1 10 g))
   \<and> signal (read_mp3 env m) =
       audio_remove_silence env
         (audio_peak_normalize env
           (audio_resample env (fst (audio_read_mp3 env (path m)))
              (snd (audio_read_mp3 env (path m))) 16000)
           (- 3))
         16000
   \<and> ((cache st ''train'' = None
          \<and> xs = conditioned env (shuffled_once env data ''train'' st0)
        \<or> cache st ''train'' = Some (map Signal_entry xs))
       \<and> fst (pipeline_from_metadata env data ''train'' st0) st = Some (out, ev, st') \<longrightarrow>
       (\<exists>ys g1 zs.
          map_rng (random_speed_change_wrapper env) xs (np_rng st) = Some (ys, g1)
          \<and> map_rng (\<lambda>x g. Some (random_filter_wrapper env x g)) ys g1 = Some (zs, np_rng st')
          \<and> length zs = length xs
          \<and> out = map (batch_extract_features env) zs))"
proof (intro conjI impI)
  show "random_filter_wrapper env x g =
     (x\<lparr>signal :=
          audio_peak_normalize env
            (tf_cast_float32 env
              (astype_float32 env
                (scipy_lfilter env (fst (rng_normal env 0 1 10 g)) 1 (signal x))))
            (- 3)\<rparr>,
      snd (rng_normal env 0 1 10 g))"
    by (simp add: random_filter_wrapper_def random_filter_def case_prod_beta Let_def)
  show "signal (read_mp3 env m) =
       audio_remove_silence env
         (audio_peak_normalize env
           (audio_resample env (fst (audio_read_mp3 env (path m)))
              (snd (audio_read_mp3 env (path m))) 16000)
           (- 3))
         16000"
    by (simp add: read_mp3_def case_prod_beta Let_def)
next
  assume A: "(cache st ''train'' = None
          \<and> xs = conditioned env (shuffled_once env data ''train'' st0)
        \<or> cache st ''train'' = Some (map Signal_entry xs))
       \<and> fst (pipeline_from_metadata env data ''train'' st0) st = Some (out, ev, st')"
  then have "\<exists>zs g'. augment env xs (np_rng st) = Some (zs, g')
      \<and> out = map (batch_extract_features env) zs \<and> np_rng st' = g'"
  proof (elim conjE disjE)
    assume "cache st ''train'' = None"
      "xs = conditioned env (shuffled_once env data ''train'' st0)"
      "fst (pipeline_from_metadata env data ''train'' st0) st = Some (out, ev, st')"
    then show ?thesis using miss_train[of st env data st0]
      by (auto simp: Let_def split: option.splits)
  next
    assume "cache st ''train'' = Some (map Signal_entry xs)"
      "fst (pipeline_from_metadata env data ''train'' st0) st = Some (out, ev, st')"
    then show ?thesis using hit_train[of st xs env data st0]
      by (auto split: option.splits)
  qed
  then obtain zs where a: "augment env xs (np_rng st) = Some (zs, np_rng st')"
    and o: "out = map (batch_extract_features env) zs" by blast
  from augment_stages[OF a] obtain ys g1 where
    "map_rng (random_speed_change_wrapper env) xs (np_rng st) = Some (ys, g1)"
    "map_rng (\<lambda>x g. Some (random_filter_wrapper env x g)) ys g1 = Some (zs, np_rng st')"
    "map utt_id zs = map utt_id xs" by blast
  moreover from this(3) have "length zs = length xs" by (metis length_map)
  ultimately show "\<exists>ys g1 zs.
          map_rng (random_speed_change_wrapper env) xs (np_rng st) = Some (ys, g1)
          \<and> map_rng (\<lambda>x g. Some (random_filter_wrapper env x g)) ys g1 = Some (zs, np_rng st')
          \<and> length zs = length xs
          \<and> out = map (batch_extract_features env) zs"
    using o by blast
qed

theorem random_filter_stage_witness:
  "(cache (toy_store\<lparr>np_random := 1\<rparr>) ''train'' = None
    \<and> [toy_signal ''b'' ''xyz'' ''train'' False [1, 1, 1],
        toy_signal ''a'' ''xy'' ''train'' False [1, 1]] =
       conditioned toy_env (shuffled_once toy_env
         [toy_row ''a'' ''xy'' ''train'' False, toy_row ''b'' ''xyz'' ''train'' False]
         ''train'' toy_store)
    \<and> fst (pipeline_from_metadata toy_env
          [toy_row ''a'' ''xy'' ''train'' False, toy_row ''b'' ''xyz'' ''train'' False]
          ''train'' toy_store) (toy_store\<lparr>np_random := 1\<rparr>) =
     Some ([toy_feat ''b'' ''xyz'' ''train'' False [1, 1, 1],
            toy_feat ''a'' ''xy'' ''train'' False [1, 1]],
           [(Read_mp3, ''b''), (Read_mp3, ''a''), (Speed_change, ''b''), (Speed_change, ''a''),
            (Filter_signal, ''b''), (Filter_signal, ''a''),
            (Extract_features, ''b''), (Extract_features, ''a'')],
           \<lparr>cache = [''train'' \<mapsto>
                [Signal_entry (toy_signal ''b'' ''xyz'' ''train'' False [1, 1, 1]),
                 Signal_entry (toy_signal ''a'' ''xy'' ''train'' False [1, 1])]],
            np_rng = 2, np_random = 1, tf_random = 0\<rparr>))
   \<and> (\<exists>ys g1 zs.
          map_rng (random_speed_change_wrapper toy_env)
            [toy_signal ''b'' ''xyz'' ''train'' False [1, 1, 1],
             toy_signal ''a'' ''xy'' ''train'' False [1, 1]]
            (np_rng (toy_store\<lparr>np_random := 1\<rparr>)) = Some (ys, g1)
          \<and> map_rng (\<lambda>x g. Some (random_filter_wrapper toy_env x g)) ys g1 = Some (zs, 2)
          \<and> length zs = length [toy_signal ''b'' ''xyz'' ''train'' False [1, 1, 1],
                                  toy_signal ''a'' ''xy'' ''train'' False [1, 1]]
          \<and> [toy_feat ''b'' ''xyz'' ''train'' False [1, 1, 1],
              toy_feat ''a'' ''xy'' ''train'' False [1, 1]] = map (batch_extract_features toy_env) zs)"
proof -
  have h: "(cache (toy_store\<lparr>np_random := 1\<rparr>) ''train'' = None
      \<and> [toy_signal ''b'' ''xyz'' ''train'' False [1, 1, 1],
          toy_signal ''a'' ''xy'' ''train'' False [1, 1]] =
         conditioned toy_env (shuffled_once toy_env
           [toy_row ''a'' ''xy'' ''train'' False, toy_row ''b'' ''xyz'' ''train'' False]
           ''train'' toy_store)
      \<or> cache (toy_store\<lparr>np_random := 1\<rparr>) ''train'' =
          Some (map Signal_entry [toy_signal ''b'' ''xyz'' ''train'' False [1, 1, 1],
                 toy_signal ''a'' ''xy'' ''train'' False [1, 1]]))
     \<and> fst (pipeline_from_metadata toy_env
          [toy_row ''a'' ''xy'' ''train'' False, toy_row ''b'' ''xyz'' ''train'' False]
          ''train'' toy_store) (toy_store\<lparr>np_random := 1\<rparr>) =
       Some ([toy_feat ''b'' ''xyz'' ''train'' False [1, 1, 1],
              toy_feat ''a'' ''xy'' ''train'' False [1, 1]],
             [(Read_mp3, ''b''), (Read_mp3, ''a''), (Speed_change, ''b''), (Speed_change, ''a''),
              (Filter_signal, ''b''), (Filter_signal, ''a''),
              (Extract_features, ''b''), (Extract_features, ''a'')],
             \<lparr>cache = [''train'' \<mapsto>
                  [Signal_entry (toy_signal ''b'' ''xyz'' ''train'' False [1, 1, 1]),
                   Signal_entry (toy_signal ''a'' ''xy'' ''train'' False [1, 1])]],
              np_rng = 2, np_random = 1, tf_random = 0\<rparr>)"
    using toy_train_fresh(1) toy_train_conditioned toy_train_first by simp
  from random_filter_stage[THEN conjunct2, THEN conjunct2, rule_format, OF h]
  show ?thesis using toy_train_fresh(1) toy_train_conditioned toy_train_first by simp
qed


lemma log_offset_value:
  "float_literal (1 / 1000000) = 4722366482869645 / 4722366482869645213696"
proof -
  have "round_f64 (1 / 1000000) = Finite (4722366482869645 / 4722366482869645213696)"
    by (rule round_f64_eqI[where e = "- 20" and m = 4722366482869645]) (simp_all add: two_powi_def)
  then show ?thesis by (simp add: float_literal_def)
qed

lemma traversal_extracts:
  assumes "cache st split_name = None
             \<and> xs = conditioned env (shuffled_once env data split_name st0)
           \<or> cache st split_name = Some (map Signal_entry xs)"
    and "fst (pipeline_from_metadata env data split_name st0) st = Some (out, ev, st')"
  shows "\<exists>zs. out = map (batch_extract_features env) zs
           \<and> map utt_id zs = map utt_id xs
           \<and> (if split_name = ''train''
               then augment env xs (np_rng st) = Some (zs, np_rng st') else zs = xs)"
proof (cases "split_name = ''train''")
  case True
  have "\<exists>zs. augment env xs (np_rng st) = Some (zs, np_rng st')
          \<and> out = map (batch_extract_features env) zs"
    using assms(1)
  proof (elim disjE conjE)
    assume "cache st split_name = None"
      "xs = conditioned env (shuffled_once env data split_name st0)"
    then show ?thesis using True assms(2) miss_train[of st env data st0]
      by (auto simp: Let_def split: option.splits)
  next
    assume "cache st split_name = Some (map Signal_entry xs)"
    then show ?thesis using True assms(2) hit_train[of st xs env data st0]
      by (auto split: option.splits)
  qed
  then obtain zs where a: "augment env xs (np_rng st) = Some (zs, np_rng st')"
    and o: "out = map (batch_extract_features env) zs" by blast
  from augment_stages[OF a] have "map utt_id zs = map utt_id xs" by blast
  then show ?thesis using True a o by auto
next
  case False
  have "out = map (batch_extract_features env) xs"
    using assms(1)
  proof (elim disjE conjE)
    assume "cache st split_name = None"
      "xs = conditioned env (shuffled_once env data split_name st0)"
    then show ?thesis using False assms(2) miss_other[of split_name st env data st0]
      by (simp add: shuffled_once_def)
  next
    assume "cache st split_name = Some (map Signal_entry xs)"
    then show ?thesis using False assms(2) hit_other[of split_name st xs env data st0]
      by simp
  qed
  then show ?thesis using False by auto
qed

lemma meta_traversal_extracts:
  assumes "split_name \<noteq> ''test''"
    and "cache st split_name = None
           \<and> xs = map (read_mp3 env) (emb_rows env data split_name st0)
         \<or> cache st split_name = Some (map Signal_entry xs)"
    and "fst (pipeline_from_meta env data split_name st0) st = Some (out, ev, st')"
  shows "\<exists>ys zs. random_signal_speed_change env lo_default hi_default ''is_copy'' xs
                    (tf_random st) = (ys, tf_random st')
           \<and> map_rng (\<lambda>x g. Some (random_filter_wrapper env x g)) ys (np_rng st)
               = Some (zs, np_rng st')
           \<and> out = map (batch_extract_features env) zs"
  using assms(2,3) unfolding pipeline_from_meta_other[OF assms(1)]
  by (auto simp: ds_prefetch_def ds_cache_def ds_unbatch_def ds_batch_def ds_map_def
      ds_map_rng_def emb_random_speed_change_def from_tensor_slices_def Let_def
      split: option.splits prod.splits)

text \<open>
  C6.  Feature extraction computes, in this order, the spectrogram, the mel projection,
  the logarithm of the sum with the binary64 number \<open>1e-6\<close> (which is
  \<open>4722366482869645 / 2 ^ 72\<close>) and the mean normalisation \<^verbatim>\<open>cmvn\<close> with variance
  normalisation switched off, and leaves every other field as it is.  No conditioned
  signal that passed the filter is empty.  In the augmenting notebook every traversal of
  every split, the first (signals from the decoder) as well as the later ones (signals
  from the cache), applies the extraction once to every conditioned signal that is not
  empty, in their order: to the signal itself in a split other than train, to the signal
  after the two augmentations in the train split.  In the embeddings notebook the first
  traversal of the test split applies it to every conditioned signal, and every
  traversal of another split to every conditioned signal after the two augmentations.
\<close>

theorem feature_extraction_order:
  "batch_extract_features env x =
     \<lparr>utt_id = utt_id x, path = path x, label = label x, target = target x,
      split = split x, is_copy = is_copy x, signal = signal x, sample_rate = sample_rate x,
      logmelspec =
        cmvn env
          (tf_math_log env
            (tf_add env
              (audio_linear_to_mel env
                (audio_spectrograms env (signal x) (sample_rate x)) (sample_rate x))
              (4722366482869645 / 4722366482869645213696)))
          False\<rparr>
   \<and> (\<forall>y \<in> set (conditioned env data). signal y \<noteq> [])
   \<and> ((cache st split_name = None
          \<and> xs = conditioned env (shuffled_once env data split_name st0)
        \<or> cache st split_name = Some (map Signal_entry xs))
       \<and> fst (pipeline_from_metadata env data split_name st0) st = Some (out, ev, st') \<longrightarrow>
       (\<exists>zs. out = map (batch_extract_features env) zs
            \<and> map utt_id zs = map utt_id xs
            \<and> (if split_name = ''train''
                then augment env xs (np_rng st) = Some (zs, np_rng st') else zs = xs)))
   \<and> (cache st ''test'' = None \<longrightarrow>
        (\<exists>ev1 st1. fst (pipeline_from_meta env data ''test'' st0) st =
           Some (map (batch_extract_features env) (map (read_mp3 env) data), ev1, st1)))
   \<and> (split_name \<noteq> ''test''
       \<and> (cache st split_name = None
            \<and> xs = map (read_mp3 env) (emb_rows env data split_name st0)
          \<or> cache st split_name = Some (map Signal_entry xs))
       \<and> fst (pipeline_from_meta env data split_name st0) st = Some (out2, ev2, st2) \<longrightarrow>
       (\<exists>ys zs. random_signal_speed_change env lo_default hi_default ''is_copy'' xs
                   (tf_random st) = (ys, tf_random st2)
            \<and> map_rng (\<lambda>x g. Some (random_filter_wrapper env x g)) ys (np_rng st)
                = Some (zs, np_rng st2)
            \<and> out2 = map (batch_extract_features env) zs))"
proof (intro conjI impI)
  show "batch_extract_features env x =
     \<lparr>utt_id = utt_id x, path = path x, label = label x, target = target x,
      split = split x, is_copy = is_copy x, signal = signal x, sample_rate = sample_rate x,
      logmelspec =
        cmvn env
          (tf_math_log env
            (tf_add env
              (audio_linear_to_mel env
                (audio_spectrograms env (signal x) (sample_rate x)) (sample_rate x))
              (4722366482869645 / 4722366482869645213696)))
          False\<rparr>"
    by (simp add: batch_extract_features_def Let_def log_offset_value)
  show "\<forall>y \<in> set (conditioned env data). signal y \<noteq> []"
    by (simp add: conditioned_def signal_is_not_empty_def)
next
  assume "(cache st split_name = None
          \<and> xs = conditioned env (shuffled_once env data split_name st0)
        \<or> cache st split_name = Some (map Signal_entry xs))
       \<and> fst (pipeline_from_metadata env data split_name st0) st = Some (out, ev, st')"
  then show "\<exists>zs. out = map (batch_extract_features env) zs
            \<and> map utt_id zs = map utt_id xs
            \<and> (if split_name = ''train''
                then augment env xs (np_rng st) = Some (zs, np_rng st') else zs = xs)"
    using traversal_extracts[of st split_name xs env data st0 out ev st'] by blast
next
  assume "cache st ''test'' = None"
  then show "\<exists>ev1 st1. fst (pipeline_from_meta env data ''test'' st0) st =
           Some (map (batch_extract_features env) (map (read_mp3 env) data), ev1, st1)"
    using miss_test[of st env data st0] by simp
next
  assume "split_name \<noteq> ''test''
       \<and> (cache st split_name = None
            \<and> xs = map (read_mp3 env) (emb_rows env data split_name st0)
          \<or> cache st split_name = Some (map Signal_entry xs))
       \<and> fst (pipeline_from_meta env data split_name st0) st = Some (out2, ev2, st2)"
  then show "\<exists>ys zs. random_signal_speed_change env lo_default hi_default ''is_copy'' xs
                   (tf_random st) = (ys, tf_random st2)
            \<and> map_rng (\<lambda>x g. Some (random_filter_wrapper env x g)) ys (np_rng st)
                = Some (zs, np_rng st2)
            \<and> out2 = map (batch_extract_features env) zs"
    using meta_traversal_extracts[of split_name st xs env data st0 out2 ev2 st2] by blast
qed

lemma toy_dev_conditioned:
  "conditioned toy_env [toy_row ''a'' ''xy'' ''dev'' False, toy_row ''b'' [] ''dev'' False]
     = [toy_signal ''a'' ''xy'' ''dev'' False [1, 1]]"
  by (simp add: conditioned_def stage_defs toy_defs)

lemma toy_dev_run:
  "fst (pipeline_from_metadata toy_env
          [toy_row ''a'' ''xy'' ''dev'' False, toy_row ''b'' [] ''dev'' False]
          ''dev'' toy_store) toy_store =
     Some ([toy_feat ''a'' ''xy'' ''dev'' False [1, 1]],
           [(Read_mp3, ''a''), (Read_mp3, ''b''), (Extract_features, ''a'')],
           \<lparr>cache = [''dev'' \<mapsto> [Signal_entry (toy_signal ''a'' ''xy'' ''dev'' False [1, 1])]],
            np_rng = 0, np_random = 0, tf_random = 0\<rparr>)"
  by (simp add: pipeline_from_metadata_def ds_defs stage_defs toy_defs)

lemma toy_emb_rows:
  "map (read_mp3 toy_env) (emb_rows toy_env
       [toy_row ''a'' ''xy'' ''train'' False, toy_row ''b'' ''xyz'' ''train'' False]
       ''train'' toy_store) =
     [toy_signal ''b'' ''xyz'' ''train'' False [1, 1, 1],
      toy_signal ''a'' ''xy'' ''train'' False [1, 1]]"
  by (simp add: emb_rows_def stage_defs toy_defs)

theorem feature_extraction_order_witness:
  "(toy_signal ''a'' ''xy'' ''dev'' False [1, 1]
       \<in> set (conditioned toy_env
                [toy_row ''a'' ''xy'' ''dev'' False, toy_row ''b'' [] ''dev'' False])
    \<and> signal (toy_signal ''a'' ''xy'' ''dev'' False [1, 1]) \<noteq> [])
   \<and> (cache toy_store ''dev'' = None
      \<and> [toy_signal ''a'' ''xy'' ''dev'' False [1, 1]] =
          conditioned toy_env (shuffled_once toy_env
            [toy_row ''a'' ''xy'' ''dev'' False, toy_row ''b'' [] ''dev'' False]
            ''dev'' toy_store)
      \<and> fst (pipeline_from_metadata toy_env
            [toy_row ''a'' ''xy'' ''dev'' False, toy_row ''b'' [] ''dev'' False]
            ''dev'' toy_store) toy_store =
          Some ([toy_feat ''a'' ''xy'' ''dev'' False [1, 1]],
                [(Read_mp3, ''a''), (Read_mp3, ''b''), (Extract_features, ''a'')],
                \<lparr>cache = [''dev'' \<mapsto>
                     [Signal_entry (toy_signal ''a'' ''xy'' ''dev'' False [1, 1])]],
                 np_rng = 0, np_random = 0, tf_random = 0\<rparr>)
      \<and> [toy_feat ''a'' ''xy'' ''dev'' False [1, 1]] =
          map (batch_extract_features toy_env) [toy_signal ''a'' ''xy'' ''dev'' False [1, 1]])
   \<and> (cache (toy_store\<lparr>np_random := 1\<rparr>) ''train'' = None
      \<and> (\<exists>zs. [toy_feat ''b'' ''xyz'' ''train'' False [1, 1, 1],
                 toy_feat ''a'' ''xy'' ''train'' False [1, 1]] =
                  map (batch_extract_features toy_env) zs
             \<and> augment toy_env
                  [toy_signal ''b'' ''xyz'' ''train'' False [1, 1, 1],
                   toy_signal ''a'' ''xy'' ''train'' False [1, 1]]
                  (np_rng (toy_store\<lparr>np_random := 1\<rparr>)) = Some (zs, 2)))
   \<and> (''train'' \<noteq> ''test''
      \<and> (\<exists>ys zs. random_signal_speed_change toy_env lo_default hi_default ''is_copy''
                    [toy_signal ''b'' ''xyz'' ''train'' False [1, 1, 1],
                     toy_signal ''a'' ''xy'' ''train'' False [1, 1]]
                    (tf_random (toy_store\<lparr>np_random := 1\<rparr>)) = (ys, 1)
             \<and> map_rng (\<lambda>x g. Some (random_filter_wrapper toy_env x g)) ys
                  (np_rng (toy_store\<lparr>np_random := 1\<rparr>)) = Some (zs, 2)
             \<and> [toy_feat ''b'' ''xyz'' ''train'' False [1, 1, 1],
                 toy_feat ''a'' ''xy'' ''train'' False [1, 1]] =
                  map (batch_extract_features toy_env) zs))
   \<and> (cache (toy_store\<lparr>np_random := 1\<rparr>) ''test'' = None
      \<and> (\<exists>ev1 st1. fst (pipeline_from_meta toy_env
                          [toy_row ''a'' ''xy'' ''test'' False] ''test'' toy_store)
                        (toy_store\<lparr>np_random := 1\<rparr>) =
             Some (map (batch_extract_features toy_env)
                     (map (read_mp3 toy_env) [toy_row ''a'' ''xy'' ''test'' False]), ev1, st1)))"
proof -
  have m: "toy_signal ''a'' ''xy'' ''dev'' False [1, 1]
       \<in> set (conditioned toy_env
                [toy_row ''a'' ''xy'' ''dev'' False, toy_row ''b'' [] ''dev'' False])"
    by (simp add: toy_dev_conditioned)
  have sh: "shuffled_once toy_env
            [toy_row ''a'' ''xy'' ''dev'' False, toy_row ''b'' [] ''dev'' False]
            ''dev'' toy_store =
          [toy_row ''a'' ''xy'' ''dev'' False, toy_row ''b'' [] ''dev'' False]"
    by (simp add: shuffled_once_def)
  have dev: "(cache toy_store ''dev'' = None
      \<and> [toy_signal ''a'' ''xy'' ''dev'' False [1, 1]] =
          conditioned toy_env (shuffled_once toy_env
            [toy_row ''a'' ''xy'' ''dev'' False, toy_row ''b'' [] ''dev'' False]
            ''dev'' toy_store)
      \<or> cache toy_store ''dev'' =
          Some (map Signal_entry [toy_signal ''a'' ''xy'' ''dev'' False [1, 1]]))
     \<and> fst (pipeline_from_metadata toy_env
            [toy_row ''a'' ''xy'' ''dev'' False, toy_row ''b'' [] ''dev'' False]
            ''dev'' toy_store) toy_store =
          Some ([toy_feat ''a'' ''xy'' ''dev'' False [1, 1]],
                [(Read_mp3, ''a''), (Read_mp3, ''b''), (Extract_features, ''a'')],
                \<lparr>cache = [''dev'' \<mapsto>
                     [Signal_entry (toy_signal ''a'' ''xy'' ''dev'' False [1, 1])]],
                 np_rng = 0, np_random = 0, tf_random = 0\<rparr>)"
    using toy_dev_run by (simp add: sh toy_dev_conditioned) (simp add: toy_store_def)
  have train: "(cache (toy_store\<lparr>np_random := 1\<rparr>) ''train'' = None
      \<and> [toy_signal ''b'' ''xyz'' ''train'' False [1, 1, 1],
          toy_signal ''a'' ''xy'' ''train'' False [1, 1]] =
         conditioned toy_env (shuffled_once toy_env
           [toy_row ''a'' ''xy'' ''train'' False, toy_row ''b'' ''xyz'' ''train'' False]
           ''train'' toy_store)
      \<or> cache (toy_store\<lparr>np_random := 1\<rparr>) ''train'' =
          Some (map Signal_entry [toy_signal ''b'' ''xyz'' ''train'' False [1, 1, 1],
                 toy_signal ''a'' ''xy'' ''train'' False [1, 1]]))
     \<and> fst (pipeline_from_metadata toy_env
          [toy_row ''a'' ''xy'' ''train'' False, toy_row ''b'' ''xyz'' ''train'' False]
          ''train'' toy_store) (toy_store\<lparr>np_random := 1\<rparr>) =
       Some ([toy_feat ''b'' ''xyz'' ''train'' False [1, 1, 1],
              toy_feat ''a'' ''xy'' ''train'' False [1, 1]],
             [(Read_mp3, ''b''), (Read_mp3, ''a''), (Speed_change, ''b''), (Speed_change, ''a''),
              (Filter_signal, ''b''), (Filter_signal, ''a''),
              (Extract_features, ''b''), (Extract_features, ''a'')],
             \<lparr>cache = [''train'' \<mapsto>
                  [Signal_entry (toy_signal ''b'' ''xyz'' ''train'' False [1, 1, 1]),
                   Signal_entry (toy_signal ''a'' ''xy'' ''train'' False [1, 1])]],
              np_rng = 2, np_random = 1, tf_random = 0\<rparr>)"
    using toy_train_fresh(1) toy_train_conditioned toy_train_first by simp
  have emb: "''train'' \<noteq> ''test''
     \<and> (cache (toy_store\<lparr>np_random := 1\<rparr>) ''train'' = None
         \<and> [toy_signal ''b'' ''xyz'' ''train'' False [1, 1, 1],
             toy_signal ''a'' ''xy'' ''train'' False [1, 1]] =
            map (read_mp3 toy_env) (emb_rows toy_env
              [toy_row ''a'' ''xy'' ''train'' False, toy_row ''b'' ''xyz'' ''train'' False]
              ''train'' toy_store)
        \<or> cache (toy_store\<lparr>np_random := 1\<rparr>) ''train'' =
            Some (map Signal_entry [toy_signal ''b'' ''xyz'' ''train'' False [1, 1, 1],
                   toy_signal ''a'' ''xy'' ''train'' False [1, 1]]))
     \<and> fst (pipeline_from_meta toy_env
          [toy_row ''a'' ''xy'' ''train'' False, toy_row ''b'' ''xyz'' ''train'' False]
          ''train'' toy_store) (toy_store\<lparr>np_random := 1\<rparr>) =
       Some ([toy_feat ''b'' ''xyz'' ''train'' False [1, 1, 1],
              toy_feat ''a'' ''xy'' ''train'' False [1, 1]],
             [(Read_mp3, ''b''), (Read_mp3, ''a''), (Speed_change, ''b''), (Speed_change, ''a''),
              (Filter_signal, ''b''), (Filter_signal, ''a''),
              (Extract_features, ''b''), (Extract_features, ''a'')],
             \<lparr>cache = [''train'' \<mapsto>
                  [Signal_entry (toy_signal ''b'' ''xyz'' ''train'' False [1, 1, 1]),
                   Signal_entry (toy_signal ''a'' ''xy'' ''train'' False [1, 1])]],
              np_rng = 2, np_random = 1, tf_random = 1\<rparr>)"
    using toy_train_fresh(1) toy_emb_rows toy_meta_train by simp
  have 1: "signal (toy_signal ''a'' ''xy'' ''dev'' False [1, 1]) \<noteq> []"
    using feature_extraction_order[THEN conjunct2, THEN conjunct1, rule_format, OF m] .
  from feature_extraction_order[THEN conjunct2, THEN conjunct2, THEN conjunct1,
      rule_format, OF dev]
  have 2: "[toy_feat ''a'' ''xy'' ''dev'' False [1, 1]] =
          map (batch_extract_features toy_env) [toy_signal ''a'' ''xy'' ''dev'' False [1, 1]]"
    by auto
  from feature_extraction_order[THEN conjunct2, THEN conjunct2, THEN conjunct1,
      rule_format, OF train]
  have 3: "\<exists>zs. [toy_feat ''b'' ''xyz'' ''train'' False [1, 1, 1],
                 toy_feat ''a'' ''xy'' ''train'' False [1, 1]] =
                  map (batch_extract_features toy_env) zs
             \<and> augment toy_env
                  [toy_signal ''b'' ''xyz'' ''train'' False [1, 1, 1],
                   toy_signal ''a'' ''xy'' ''train'' False [1, 1]]
                  (np_rng (toy_store\<lparr>np_random := 1\<rparr>)) = Some (zs, 2)"
    by auto
  from feature_extraction_order[THEN conjunct2, THEN conjunct2, THEN conjunct2, THEN conjunct2,
      rule_format, OF emb]
  have 4: "\<exists>ys zs. random_signal_speed_change toy_env lo_default hi_default ''is_copy''
                    [toy_signal ''b'' ''xyz'' ''train'' False [1, 1, 1],
                     toy_signal ''a'' ''xy'' ''train'' False [1, 1]]
                    (tf_random (toy_store\<lparr>np_random := 1\<rparr>)) = (ys, 1)
             \<and> map_rng (\<lambda>x g. Some (random_filter_wrapper toy_env x g)) ys
                  (np_rng (toy_store\<lparr>np_random := 1\<rparr>)) = Some (zs, 2)
             \<and> [toy_feat ''b'' ''xyz'' ''train'' False [1, 1, 1],
                 toy_feat ''a'' ''xy'' ''train'' False [1, 1]] =
                  map (batch_extract_features toy_env) zs"
    by simp
  from feature_extraction_order[THEN conjunct2, THEN conjunct2, THEN conjunct2, THEN conjunct1,
      rule_format, OF toy_train_fresh(2)]
  have 5: "\<exists>ev1 st1. fst (pipeline_from_meta toy_env
                          [toy_row ''a'' ''xy'' ''test'' False] ''test'' toy_store)
                        (toy_store\<lparr>np_random := 1\<rparr>) =
             Some (map (batch_extract_features toy_env)
                     (map (read_mp3 toy_env) [toy_row ''a'' ''xy'' ''test'' False]), ev1, st1)"
    by blast
  have df: "cache toy_store ''dev'' = None" by (simp add: toy_store_def)
  have dc: "[toy_signal ''a'' ''xy'' ''dev'' False [1, 1]] =
          conditioned toy_env (shuffled_once toy_env
            [toy_row ''a'' ''xy'' ''dev'' False, toy_row ''b'' [] ''dev'' False]
            ''dev'' toy_store)"
    by (simp add: sh toy_dev_conditioned)
  have ne: "''train'' \<noteq> ''test''" by simp
  note tf = toy_train_fresh
  show ?thesis
    by (intro conjI) (fact m 1 df dc toy_dev_run 2 tf 3 ne 4 5)+
qed

lemma toy_dev_first:
  "fst (pipeline_from_metadata toy_env
          [toy_row ''a'' ''xy'' ''dev'' False, toy_row ''b'' [] ''dev'' False,
           toy_row ''c'' ''xyz'' ''dev'' False]
          ''dev'' toy_store) toy_store =
     Some ([toy_feat ''a'' ''xy'' ''dev'' False [1, 1],
            toy_feat ''c'' ''xyz'' ''dev'' False [1, 1, 1]],
           [(Read_mp3, ''a''), (Read_mp3, ''b''), (Read_mp3, ''c''),
            (Extract_features, ''a''), (Extract_features, ''c'')],
           \<lparr>cache = [''dev'' \<mapsto>
                [Signal_entry (toy_signal ''a'' ''xy'' ''dev'' False [1, 1]),
                 Signal_entry (toy_signal ''c'' ''xyz'' ''dev'' False [1, 1, 1])]],
            np_rng = 0, np_random = 0, tf_random = 0\<rparr>)"
  by (simp add: pipeline_from_metadata_def ds_defs stage_defs toy_defs)

lemma toy_dev_second:
  "fst (pipeline_from_metadata toy_env
          [toy_row ''a'' ''xy'' ''dev'' False, toy_row ''b'' [] ''dev'' False,
           toy_row ''c'' ''xyz'' ''dev'' False]
          ''dev'' toy_store)
        \<lparr>cache = [''dev'' \<mapsto>
                [Signal_entry (toy_signal ''a'' ''xy'' ''dev'' False [1, 1]),
                 Signal_entry (toy_signal ''c'' ''xyz'' ''dev'' False [1, 1, 1])]],
            np_rng = 0, np_random = 0, tf_random = 0\<rparr> =
     Some ([toy_feat ''a'' ''xy'' ''dev'' False [1, 1],
            toy_feat ''c'' ''xyz'' ''dev'' False [1, 1, 1]],
           [(Extract_features, ''a''), (Extract_features, ''c'')],
           \<lparr>cache = [''dev'' \<mapsto>
                [Signal_entry (toy_signal ''a'' ''xy'' ''dev'' False [1, 1]),
                 Signal_entry (toy_signal ''c'' ''xyz'' ''dev'' False [1, 1, 1])]],
            np_rng = 0, np_random = 0, tf_random = 0\<rparr>)"
  by (simp add: pipeline_from_metadata_def ds_defs stage_defs toy_defs)

lemma toy_dev_fresh: "cache toy_store ''dev'' = None"
  by (simp add: toy_store_def)

text \<open>
  Against C7 as stated: the train split is shuffled when the pipeline is built (numpy's
  generator advances once), and two traversals of the pipeline, which start from
  different states of \<^verbatim>\<open>np_rng\<close>, give the utterances in the same order and leave numpy's
  generator where it was.
\<close>

theorem train_order_fixed_at_build_counterexample:
  "snd (pipeline_from_metadata toy_env
          [toy_row ''a'' ''xy'' ''train'' False, toy_row ''b'' ''xyz'' ''train'' False]
          ''train'' toy_store) = toy_store\<lparr>np_random := 1\<rparr>
   \<and> fst (pipeline_from_metadata toy_env
          [toy_row ''a'' ''xy'' ''train'' False, toy_row ''b'' ''xyz'' ''train'' False]
          ''train'' toy_store) (toy_store\<lparr>np_random := 1\<rparr>) =
     Some ([toy_feat ''b'' ''xyz'' ''train'' False [1, 1, 1],
            toy_feat ''a'' ''xy'' ''train'' False [1, 1]],
           [(Read_mp3, ''b''), (Read_mp3, ''a''), (Speed_change, ''b''), (Speed_change, ''a''),
            (Filter_signal, ''b''), (Filter_signal, ''a''),
            (Extract_features, ''b''), (Extract_features, ''a'')],
           \<lparr>cache = [''train'' \<mapsto>
                [Signal_entry (toy_signal ''b'' ''xyz'' ''train'' False [1, 1, 1]),
                 Signal_entry (toy_signal ''a'' ''xy'' ''train'' False [1, 1])]],
            np_rng = 2, np_random = 1, tf_random = 0\<rparr>)
   \<and> fst (pipeline_from_metadata toy_env
          [toy_row ''a'' ''xy'' ''train'' False, toy_row ''b'' ''xyz'' ''train'' False]
          ''train'' toy_store)
        \<lparr>cache = [''train'' \<mapsto>
                [Signal_entry (toy_signal ''b'' ''xyz'' ''train'' False [1, 1, 1]),
                 Signal_entry (toy_signal ''a'' ''xy'' ''train'' False [1, 1])]],
            np_rng = 2, np_random = 1, tf_random = 0\<rparr> =
     Some ([toy_feat ''b'' ''xyz'' ''train'' False [1, 1, 1],
            toy_feat ''a'' ''xy'' ''train'' False [1, 1]],
           [(Speed_change, ''b''), (Speed_change, ''a''),
            (Filter_signal, ''b''), (Filter_signal, ''a''),
            (Extract_features, ''b''), (Extract_features, ''a'')],
           \<lparr>cache = [''train'' \<mapsto>
                [Signal_entry (toy_signal ''b'' ''xyz'' ''train'' False [1, 1, 1]),
                 Signal_entry (toy_signal ''a'' ''xy'' ''train'' False [1, 1])]],
            np_rng = 4, np_random = 1, tf_random = 0\<rparr>)"
  using toy_train_first toy_train_second
  by (simp add: pipeline_from_metadata_def toy_env_def toy_store_def)

text \<open>
  C7, amended.  The rows of the train split are shuffled once, when the pipeline is
  built; every traversal of a split's sequence then gives the utterances with a
  non-empty signal in that same order, and no traversal draws from the generator that
  shuffled the rows.  For every other split this order is the metadata order.  The
  input of the training loop passes the train sequence through a shuffle buffer of
  1000 elements on every traversal.
\<close>

theorem order_fixed_when_pipeline_is_built:
  assumes "cache st split_name = None"
    and "fst (pipeline_from_metadata env data split_name st0) st = Some (out1, ev1, st1)"
    and "fst (pipeline_from_metadata env data split_name st0) st1 = Some (out2, ev2, st2)"
  shows "map utt_id out1 =
           map utt_id (filter (\<lambda>m. signal_is_not_empty (read_mp3 env m))
                         (shuffled_once env data split_name st0))
       \<and> map utt_id out2 = map utt_id out1
       \<and> np_random st1 = np_random st \<and> np_random st2 = np_random st
       \<and> (split_name \<noteq> ''train'' \<longrightarrow> shuffled_once env data split_name st0 = data)
       \<and> snd (pipeline_from_metadata env data split_name st0) =
           st0\<lparr>np_random := (if split_name = ''train''
                               then snd (df_sample env data (np_random st0))
                               else np_random st0)\<rparr>
       \<and> train_ds env ds st =
           (case ds st of
              None \<Rightarrow> None
            | Some (xs, ev, st') \<Rightarrow>
                Some (fst (tf_shuffle env 1000 (map as_model_input xs) (tf_random st')),
                      ev @ stage_events Model_input xs,
                      st'\<lparr>tf_random :=
                            snd (tf_shuffle env 1000 (map as_model_input xs) (tf_random st'))\<rparr>))"
proof -
  define sigs where "sigs = conditioned env (shuffled_once env data split_name st0)"
  from first_traversal[OF assms(1,2)] obtain zs where
    s1: "st1 = st\<lparr>cache := (cache st)(split_name \<mapsto> map Signal_entry sigs),
                   np_rng := np_rng st1\<rparr>"
    and o1: "out1 = map (batch_extract_features env) zs"
    and i1: "map utt_id zs = map utt_id sigs"
    unfolding sigs_def by blast
  have c1: "cache st1 split_name = Some (map Signal_entry sigs)"
    by (metis (no_types, lifting) s1 fun_upd_same store.select_convs(1) store.surjective
        store.update_convs(1,2))
  from later_traversal[OF c1 assms(3)] obtain zs' where
    s2: "st2 = st1\<lparr>np_rng := np_rng st2\<rparr>"
    and o2: "out2 = map (batch_extract_features env) zs'"
    and i2: "map utt_id zs' = map utt_id sigs"
    by blast
  have a: "map utt_id out1 = map utt_id sigs" using o1 i1 by (simp add: comp_def)
  have b: "map utt_id out2 = map utt_id sigs" using o2 i2 by (simp add: comp_def)
  have n1: "np_random st1 = np_random st"
    by (metis s1 store.select_convs(3) store.surjective store.update_convs(1,2))
  have n2: "np_random st2 = np_random st1"
    by (metis s2 store.select_convs(3) store.surjective store.update_convs(2))
  have c: "snd (pipeline_from_metadata env data split_name st0) =
           st0\<lparr>np_random := (if split_name = ''train''
                               then snd (df_sample env data (np_random st0))
                               else np_random st0)\<rparr>"
    by (simp add: pipeline_from_metadata_def case_prod_beta)
  have d: "train_ds env ds st =
           (case ds st of
              None \<Rightarrow> None
            | Some (xs, ev, st') \<Rightarrow>
                Some (fst (tf_shuffle env 1000 (map as_model_input xs) (tf_random st')),
                      ev @ stage_events Model_input xs,
                      st'\<lparr>tf_random :=
                            snd (tf_shuffle env 1000 (map as_model_input xs) (tf_random st'))\<rparr>))"
    by (simp add: train_ds_def ds_shuffle_def ds_map_def stage_events_def case_prod_beta
        split: option.splits)
  show ?thesis
    using a b n1 n2 c d ids_conditioned[of env "shuffled_once env data split_name st0"]
    unfolding sigs_def by (simp add: shuffled_once_def)
qed

theorem order_fixed_when_pipeline_is_built_witness:
  "(cache (toy_store\<lparr>np_random := 1\<rparr>) ''train'' = None
    \<and> map utt_id [toy_feat ''b'' ''xyz'' ''train'' False [1, 1, 1],
                   toy_feat ''a'' ''xy'' ''train'' False [1, 1 :: int]] = [''b'', ''a'']
    \<and> map utt_id (filter (\<lambda>m. signal_is_not_empty (read_mp3 toy_env m))
         (shuffled_once toy_env
            [toy_row ''a'' ''xy'' ''train'' False, toy_row ''b'' ''xyz'' ''train'' False]
            ''train'' toy_store)) = [''b'', ''a'']
    \<and> np_random \<lparr>cache = [''train'' \<mapsto>
                 [Signal_entry (toy_signal ''b'' ''xyz'' ''train'' False [1, 1, 1])
                    :: (int, int list) entry,
                  Signal_entry (toy_signal ''a'' ''xy'' ''train'' False [1, 1])]],
             np_rng = (4::nat), np_random = (1::nat), tf_random = (0::nat)\<rparr>
        = np_random (toy_store\<lparr>np_random := 1\<rparr>))
   \<and> (cache toy_store ''dev'' = None \<and> ''dev'' \<noteq> ''train''
      \<and> shuffled_once toy_env
           [toy_row ''a'' ''xy'' ''dev'' False, toy_row ''b'' [] ''dev'' False,
            toy_row ''c'' ''xyz'' ''dev'' False] ''dev'' toy_store =
          [toy_row ''a'' ''xy'' ''dev'' False, toy_row ''b'' [] ''dev'' False,
           toy_row ''c'' ''xyz'' ''dev'' False]
      \<and> map utt_id [toy_feat ''a'' ''xy'' ''dev'' False [1, 1],
                     toy_feat ''c'' ''xyz'' ''dev'' False [1, 1, 1 :: int]] = [''a'', ''c'']
      \<and> map utt_id (filter (\<lambda>m. signal_is_not_empty (read_mp3 toy_env m))
           [toy_row ''a'' ''xy'' ''dev'' False, toy_row ''b'' [] ''dev'' False,
            toy_row ''c'' ''xyz'' ''dev'' False]) = [''a'', ''c''])"
proof -
  note T = order_fixed_when_pipeline_is_built[OF toy_train_fresh(1) toy_train_first
      toy_train_second]
  note D = order_fixed_when_pipeline_is_built[OF toy_dev_fresh toy_dev_first toy_dev_second]
  from T[THEN conjunct1] have "map utt_id [toy_feat ''b'' ''xyz'' ''train'' False [1, 1, 1],
                  toy_feat ''a'' ''xy'' ''train'' False [1, 1 :: int]] =
     map utt_id (filter (\<lambda>m. signal_is_not_empty (read_mp3 toy_env m))
        (shuffled_once toy_env
           [toy_row ''a'' ''xy'' ''train'' False, toy_row ''b'' ''xyz'' ''train'' False]
           ''train'' toy_store))" .
  moreover from T[THEN conjunct2, THEN conjunct2, THEN conjunct2, THEN conjunct1]
  have "np_random \<lparr>cache = [''train'' \<mapsto>
                [Signal_entry (toy_signal ''b'' ''xyz'' ''train'' False [1, 1, 1])
                   :: (int, int list) entry,
                 Signal_entry (toy_signal ''a'' ''xy'' ''train'' False [1, 1])]],
            np_rng = (4::nat), np_random = (1::nat), tf_random = (0::nat)\<rparr>
       = np_random (toy_store\<lparr>np_random := 1\<rparr>)" .
  moreover have n: "''dev'' \<noteq> ''train''" by simp
  moreover from D[THEN conjunct2, THEN conjunct2, THEN conjunct2, THEN conjunct2, THEN conjunct1] n
  have e: "shuffled_once toy_env
           [toy_row ''a'' ''xy'' ''dev'' False, toy_row ''b'' [] ''dev'' False,
            toy_row ''c'' ''xyz'' ''dev'' False] ''dev'' toy_store =
          [toy_row ''a'' ''xy'' ''dev'' False, toy_row ''b'' [] ''dev'' False,
           toy_row ''c'' ''xyz'' ''dev'' False]" by blast
  moreover from D[THEN conjunct1] e
  have "map utt_id [toy_feat ''a'' ''xy'' ''dev'' False [1, 1],
                     toy_feat ''c'' ''xyz'' ''dev'' False [1, 1, 1 :: int]] =
     map utt_id (filter (\<lambda>m. signal_is_not_empty (read_mp3 toy_env m))
           [toy_row ''a'' ''xy'' ''dev'' False, toy_row ''b'' [] ''dev'' False,
            toy_row ''c'' ''xyz'' ''dev'' False])" by simp
  ultimately show ?thesis using toy_train_fresh(1) toy_dev_fresh
    by (simp add: toy_feat_def)
qed

section \<open>Two runs with the same seed\<close>

text \<open>
  The notebook seeds \<^verbatim>\<open>np_rng\<close> and TensorFlow, and passes \<^verbatim>\<open>np_rng.bit_generator\<close> to
  every other \<^verbatim>\<open>sample\<close>; \<^verbatim>\<open>data.sample(frac=1)\<close> of \<^verbatim>\<open>pipeline_from_metadata\<close> has no
  \<^verbatim>\<open>random_state\<close> and so draws from numpy's global generator (\<open>np_random\<close> of the store),
  which nothing seeds. The order of the training rows decides which utterance receives
  which draw of \<^verbatim>\<open>np_rng\<close>. The lemmas below evaluate two runs over two copies with
  ten-sample signals, from stores that agree on \<open>np_rng\<close>.
\<close>

lemma lo_default_f64: "float_literal lo_default = lo_default"
proof -
  have "round_f64 (8106479329266893 / 9007199254740992) = Finite (8106479329266893 / 9007199254740992)"
    by (rule round_f64_eqI[where e = "- 1" and m = 8106479329266893]) (simp_all add: two_powi_def)
  then show ?thesis by (simp add: lo_default_value float_literal_def)
qed

lemma toy_uniform_0: "rng_uniform toy_env lo_default hi_default 0 = (lo_default, 1)"
  using lo_default_f64 by (simp add: toy_env_def)

lemma toy_uniform_1:
  "rng_uniform toy_env lo_default hi_default 1 = (8556839292003943 / 9007199254740992, 2)"
proof -
  have "round_f64 (lo_default + (hi_default - lo_default) * 1 / 4)
          = Finite (8556839292003943 / 9007199254740992)"
    unfolding lo_default_value hi_default_value
    by (rule round_f64_eqI[where e = "- 1" and m = 8556839292003943]) (simp_all add: two_powi_def)
  then show ?thesis by (simp add: toy_env_def float_literal_def)
qed

lemma toy_new_len_0:
  "new_len (length [1, 1, 1, 1, 1, 1, 1, 1, 1, 1 :: int]) 16000 lo_default = Some 11"
  unfolding lo_default_value
proof (rule new_len_evalI)
  show "round_f64 (8106479329266893 / 9007199254740992 * rat_of_int 16000) = Finite 14400"
    by (rule round_f64_eqI[where e = 13 and m = 7916483719987200]) (simp_all add: two_powi_def)
  show "round_f64 (rat_of_int (int (length [1, 1, 1, 1, 1, 1, 1, 1, 1, 1 :: int]) * 16000) / 14400)
          = Finite (3127499741229511 / 281474976710656)"
    by (rule round_f64_eqI[where e = 3 and m = 6254999482459022]) (simp_all add: two_powi_def)
qed simp_all

lemma toy_new_len_1:
  "new_len (length [1, 1, 1, 1, 1, 1, 1, 1, 1, 1 :: int]) 16000
     (8556839292003943 / 9007199254740992) = Some 10"
proof (rule new_len_evalI)
  show "round_f64 (8556839292003943 / 9007199254740992 * rat_of_int 16000)
          = Finite (8356288371097601 / 549755813888)"
    by (rule round_f64_eqI[where e = 13 and m = 8356288371097601]) (simp_all add: two_powi_def)
  show "round_f64 (rat_of_int (int (length [1, 1, 1, 1, 1, 1, 1, 1, 1, 1 :: int]) * 16000)
                    / (8356288371097601 / 549755813888))
          = Finite (5925788983382231 / 562949953421312)"
    by (rule round_f64_eqI[where e = 3 and m = 5925788983382231]) (simp_all add: two_powi_def)
qed simp_all

lemma toy_speed_change_0:
  "random_speed_change_wrapper toy_env
     (toy_signal i p ''train'' True [1, 1, 1, 1, 1, 1, 1, 1, 1, 1]) 0
   = Some (toy_signal i p ''train'' True (replicate 11 1), 1)"
  using toy_uniform_0 toy_new_len_0
  apply (simp add: random_speed_change_wrapper_def random_speed_change_def toy_signal_def)
  apply (simp add: toy_env_def)
  done

lemma toy_speed_change_1:
  "random_speed_change_wrapper toy_env
     (toy_signal i p ''train'' True [1, 1, 1, 1, 1, 1, 1, 1, 1, 1]) (Suc 0)
   = Some (toy_signal i p ''train'' True (replicate 10 1), 2)"
  using toy_uniform_1 toy_new_len_1
  apply (simp add: random_speed_change_wrapper_def random_speed_change_def toy_signal_def)
  apply (simp add: toy_env_def)
  done

lemma toy_read_mp3:
  "read_mp3 toy_env (toy_row i p sp c) = toy_signal i p sp c (replicate (length p) 1)"
  by (simp add: read_mp3_def toy_defs)

lemma toy_extract:
  "batch_extract_features toy_env (toy_signal i p sp c s) = toy_feat i p sp c s"
  by (simp add: batch_extract_features_def toy_defs)

lemma toy_filter: "random_filter_wrapper toy_env x g = (x, Suc g)"
  by (simp add: random_filter_wrapper_def random_filter_def toy_env_def)

lemma toy_df_sample: "df_sample toy_env rows h = (if even h then rev rows else rows, Suc h)"
  by (simp add: toy_env_def)

lemma toy_signal_sel [simp]:
  "signal (toy_signal i p sp c s) = s" "utt_id (toy_signal i p sp c s) = i"
  "utt_id (toy_row i p sp c) = i"
  by (simp_all add: toy_signal_def toy_row_def)

lemma toy_run_even:
  "fst (pipeline_from_metadata toy_env
          [toy_row ''a'' ''0123456789'' ''train'' True,
           toy_row ''b'' ''abcdefghij'' ''train'' True] ''train'' toy_store)
       (snd (pipeline_from_metadata toy_env
          [toy_row ''a'' ''0123456789'' ''train'' True,
           toy_row ''b'' ''abcdefghij'' ''train'' True] ''train'' toy_store)) =
   Some ([toy_feat ''b'' ''abcdefghij'' ''train'' True (replicate 11 1),
          toy_feat ''a'' ''0123456789'' ''train'' True (replicate 10 1)],
         [(Read_mp3, ''b''), (Read_mp3, ''a''), (Speed_change, ''b''), (Speed_change, ''a''),
          (Filter_signal, ''b''), (Filter_signal, ''a''),
          (Extract_features, ''b''), (Extract_features, ''a'')],
         \<lparr>cache = [''train'' \<mapsto>
              [Signal_entry (toy_signal ''b'' ''abcdefghij'' ''train'' True
                               [1, 1, 1, 1, 1, 1, 1, 1, 1, 1]),
               Signal_entry (toy_signal ''a'' ''0123456789'' ''train'' True
                               [1, 1, 1, 1, 1, 1, 1, 1, 1, 1])]],
          np_rng = 4, np_random = 1, tf_random = 0\<rparr>)"
  by (simp add: pipeline_from_metadata_def ds_defs toy_df_sample toy_read_mp3 toy_extract
      toy_filter toy_speed_change_0 toy_speed_change_1 signal_is_not_empty_def toy_store_def)

lemma toy_run_odd:
  "fst (pipeline_from_metadata toy_env
          [toy_row ''a'' ''0123456789'' ''train'' True,
           toy_row ''b'' ''abcdefghij'' ''train'' True] ''train''
          (toy_store\<lparr>np_random := 1\<rparr>))
       (snd (pipeline_from_metadata toy_env
          [toy_row ''a'' ''0123456789'' ''train'' True,
           toy_row ''b'' ''abcdefghij'' ''train'' True] ''train''
          (toy_store\<lparr>np_random := 1\<rparr>))) =
   Some ([toy_feat ''a'' ''0123456789'' ''train'' True (replicate 11 1),
          toy_feat ''b'' ''abcdefghij'' ''train'' True (replicate 10 1)],
         [(Read_mp3, ''a''), (Read_mp3, ''b''), (Speed_change, ''a''), (Speed_change, ''b''),
          (Filter_signal, ''a''), (Filter_signal, ''b''),
          (Extract_features, ''a''), (Extract_features, ''b'')],
         \<lparr>cache = [''train'' \<mapsto>
              [Signal_entry (toy_signal ''a'' ''0123456789'' ''train'' True
                               [1, 1, 1, 1, 1, 1, 1, 1, 1, 1]),
               Signal_entry (toy_signal ''b'' ''abcdefghij'' ''train'' True
                               [1, 1, 1, 1, 1, 1, 1, 1, 1, 1])]],
          np_rng = 4, np_random = 2, tf_random = 0\<rparr>)"
  by (simp add: pipeline_from_metadata_def ds_defs toy_df_sample toy_read_mp3 toy_extract
      toy_filter toy_speed_change_0 toy_speed_change_1 signal_is_not_empty_def toy_store_def)

text \<open>
  C8 (fails on the code): for a fixed seed of \<^verbatim>\<open>np_rng\<close>, two runs of the training split do
  not give every utterance the same augmented signal. Both runs below start from the same
  \<open>np_rng\<close>, from an empty cache and from the same metadata, and every stage is called in the
  order of the elements (no two draws overlap); the runs differ in the state of numpy's
  unseeded global generator only. In the first run utterance \<open>a\<close> is second, receives the
  second draw and is resampled to 10 samples; in the second run it is first, receives the
  first draw and is resampled to 11 samples.
\<close>

theorem same_seed_runs_differ:
  "np_rng (toy_store\<lparr>np_random := 1\<rparr>) = np_rng toy_store \<and>
   cache (toy_store\<lparr>np_random := 1\<rparr>) = cache toy_store \<and>
   map_option fst
     (fst (pipeline_from_metadata toy_env
             [toy_row ''a'' ''0123456789'' ''train'' True,
              toy_row ''b'' ''abcdefghij'' ''train'' True] ''train'' toy_store)
          (snd (pipeline_from_metadata toy_env
             [toy_row ''a'' ''0123456789'' ''train'' True,
              toy_row ''b'' ''abcdefghij'' ''train'' True] ''train'' toy_store))) =
   Some [toy_feat ''b'' ''abcdefghij'' ''train'' True (replicate 11 1),
         toy_feat ''a'' ''0123456789'' ''train'' True (replicate 10 1)] \<and>
   map_option fst
     (fst (pipeline_from_metadata toy_env
             [toy_row ''a'' ''0123456789'' ''train'' True,
              toy_row ''b'' ''abcdefghij'' ''train'' True] ''train''
             (toy_store\<lparr>np_random := 1\<rparr>))
          (snd (pipeline_from_metadata toy_env
             [toy_row ''a'' ''0123456789'' ''train'' True,
              toy_row ''b'' ''abcdefghij'' ''train'' True] ''train''
             (toy_store\<lparr>np_random := 1\<rparr>)))) =
   Some [toy_feat ''a'' ''0123456789'' ''train'' True (replicate 11 1),
         toy_feat ''b'' ''abcdefghij'' ''train'' True (replicate 10 1)]"
  unfolding toy_run_even toy_run_odd by (simp add: toy_store_def)

end
